theory Spec2Isabelle
  imports Main "HOL-Library.AList" "HOL-Library.Sublist" "HOL-Library.Word"
begin

chapter \<open>The scrutinize-tar operation and the replication command of vclusterops\<close>

text \<open>
  A shallow embedding of two files of the package \<^verbatim>\<open>vclusterops\<close>: the operation
  \<^verbatim>\<open>nmaGetScrutinizeTarOp\<close>, which retrieves one tarball per host, with its
  constructor and its \<^verbatim>\<open>prepare\<close>, \<^verbatim>\<open>execute\<close> and \<^verbatim>\<open>processResult\<close>; and the
  command \<^verbatim>\<open>VReplicateDatabase\<close> of \<^verbatim>\<open>replication.go\<close>, with the validation of its
  options and the production of its instructions. State that the Go code mutates
  through a receiver or a pointer is passed in and returned; what is logged is returned
  as a list of events.
\<close>

section \<open>Go error values\<close>

text \<open>
  A Go \<^verbatim>\<open>error\<close> is an interface value; \<^verbatim>\<open>nil\<close> is \<open>None\<close> of \<open>error option\<close>.
  Three dynamic types occur in the two source files: the plain error of
  \<^verbatim>\<open>fmt.Errorf\<close> without \<^verbatim>\<open>%w\<close>, the wrapping error of \<^verbatim>\<open>fmt.Errorf\<close> with
  \<^verbatim>\<open>%w\<close> (formatted message and wrapped error), and the join error of
  \<^verbatim>\<open>errors.Join\<close>.
\<close>

datatype error =
    ErrorString string
  | WrapError string error
  | JoinError "error list"

text \<open>\<^verbatim>\<open>strings.Join(lines, "\n")\<close>, as \<^verbatim>\<open>joinError.Error\<close> builds its text.\<close>

fun join_newline :: "string list \<Rightarrow> string" where
  "join_newline [] = []"
| "join_newline [s] = s"
| "join_newline (s # t # ss) = s @ CHR 0x0A # join_newline (t # ss)"

text \<open>The \<^verbatim>\<open>Error()\<close> method.\<close>

fun Error_msg :: "error \<Rightarrow> string" where
  "Error_msg (ErrorString s) = s"
| "Error_msg (WrapError s e) = s"
| "Error_msg (JoinError es) = join_newline (map Error_msg es)"

text \<open>
  \<^verbatim>\<open>errors.Join(errs...)\<close>: nil arguments are dropped; with nothing left the result
  is nil, otherwise a join error holding the remaining errors in order.
\<close>

definition errors_Join :: "error option list \<Rightarrow> error option" where
  "errors_Join errs =
     (case List.map_filter (\<lambda>e. e) errs of
        [] \<Rightarrow> None
      | e # es \<Rightarrow> Some (JoinError (e # es)))"

text \<open>
  \<^verbatim>\<open>fmt.Errorf(text + "%w", operand)\<close>, \<open>text\<close> being the text already formatted
  from the \<^verbatim>\<open>%s\<close> verbs. A nil operand is a bad verb: it prints
  \<^verbatim>\<open>%!w(<nil>)\<close> and nothing is wrapped.
\<close>

definition fmt_Errorf_w :: "string \<Rightarrow> error option \<Rightarrow> error" where
  "fmt_Errorf_w text operand =
     (case operand of
        None \<Rightarrow> ErrorString (text @ ''%!w(<nil>)'')
      | Some e \<Rightarrow> WrapError (text @ Error_msg e) e)"

text \<open>The errors a value holds once every join is opened.\<close>

fun joined_errors :: "error \<Rightarrow> error list" where
  "joined_errors (JoinError es) = concat (map joined_errors es)"
| "joined_errors e = [e]"

section \<open>Logging\<close>

text \<open>
  The logger has no return value; the model collects what an operation logs, in order.
  Key/value pairs of the structured calls are kept as pairs.
\<close>

datatype logEvent =
    LogInfo string "(string \<times> string) list"
  | LogError "error option" string "(string \<times> string) list"
  | LogWarning string
  | LogResponse string string

section \<open>Per-host requests and results\<close>

text \<open>
  Modelled from the spec: the type \<^verbatim>\<open>hostHTTPResult\<close> and its methods
  \<^verbatim>\<open>isPassing\<close> and \<^verbatim>\<open>isInternalError\<close> are declared outside the two source
  files. A per-host result records pass/fail, an error value, whether the error is
  classified as internal, and a content payload.
\<close>

record hostHTTPResult =
  passing :: bool
  internalError :: bool
  err :: "error option"
  content :: string

text \<open>
  Modelled from the spec: \<^verbatim>\<open>isPassing\<close> is declared outside the two source files; it
  reads the pass/fail outcome the result records.
\<close>

definition isPassing :: "hostHTTPResult \<Rightarrow> bool" where
  "isPassing result = passing result"

text \<open>
  Modelled from the spec: \<^verbatim>\<open>isInternalError\<close> is declared outside the two source
  files; it reads whether the result is classified as an internal error.
\<close>

definition isInternalError :: "hostHTTPResult \<Rightarrow> bool" where
  "isInternalError result = internalError result"

text \<open>
  Modelled from the spec: the types \<^verbatim>\<open>hostHTTPRequest\<close> and
  \<^verbatim>\<open>clusterHTTPRequest\<close> are declared outside the two source files. A request has a
  method; the cluster request holds one request and, after the dispatch, one result per
  host. Go maps keyed by host are association lists. For \<^verbatim>\<open>ResultCollection\<close> the list
  order is the order in which \<^verbatim>\<open>range\<close> visits the map, which Go leaves
  unspecified: a property proved for every list holds for every visiting order.
\<close>

record hostHTTPRequest =
  Method :: string

record clusterHTTPRequest =
  RequestCollection :: "(string \<times> hostHTTPRequest) list"
  ResultCollection :: "(string \<times> hostHTTPResult) list"

text \<open>Indexing a \<^verbatim>\<open>map[string]string\<close>: a missing key reads as the empty string.\<close>

definition map_index :: "(string \<times> string) list \<Rightarrow> string \<Rightarrow> string" where
  "map_index m k = (case map_of m k of None \<Rightarrow> [] | Some v \<Rightarrow> v)"

section \<open>The scrutinize-tar operation\<close>

text \<open>
  The struct embeds \<^verbatim>\<open>scrutinizeOpBase\<close>, which is declared outside the two source
  files: the fields listed before \<open>useInitiator\<close> are the fields of the embedded structs
  that the operation reads and writes. The field \<^verbatim>\<open>id\<close> is \<open>id_str\<close> here.
\<close>

record nmaGetScrutinizeTarOp =
  name :: string
  hosts :: "string list"
  skipExecute :: bool
  clusterHTTPRequest :: clusterHTTPRequest
  id_str :: string
  batch :: string
  hostNodeNameMap :: "(string \<times> string) list"
  httpMethod :: string
  useInitiator :: bool

text \<open>
  Modelled from the spec: \<^verbatim>\<open>logResponse\<close> is declared outside the two source files;
  it emits one log event for the host's response and returns nothing.
\<close>

definition logResponse :: "nmaGetScrutinizeTarOp \<Rightarrow> string \<Rightarrow> hostHTTPResult \<Rightarrow> logEvent list" where
  "logResponse op host result = [LogResponse (name op) host]"

definition tarballKeyValues :: "nmaGetScrutinizeTarOp \<Rightarrow> string \<Rightarrow> (string \<times> string) list" where
  "tarballKeyValues op host =
     [(''Host'', host), (''Node'', map_index (hostNodeNameMap op) host), (''Batch'', batch op)]"

text \<open>The error built for a host whose failure is not an internal error.\<close>

definition tarballError :: "nmaGetScrutinizeTarOp \<Rightarrow> string \<Rightarrow> hostHTTPResult \<Rightarrow> error" where
  "tarballError op host result =
     fmt_Errorf_w (''failed to retrieve tarball batch '' @ batch op @ '' on host '' @ host
                   @ '', details '') (err result)"

definition skipWarning :: "nmaGetScrutinizeTarOp \<Rightarrow> string \<Rightarrow> logEvent" where
  "skipWarning op host =
     LogWarning (''Failed to tar batch '' @ batch op @ '' on host '' @ host @ ''. Skipping.'')"

text \<open>
  One iteration of the loop of \<^verbatim>\<open>processResult\<close>: the state is \<^verbatim>\<open>allErrs\<close> and the
  log written so far.
\<close>

definition processHost ::
  "nmaGetScrutinizeTarOp \<Rightarrow> string \<times> hostHTTPResult \<Rightarrow> error option \<times> logEvent list
     \<Rightarrow> error option \<times> logEvent list" where
  "processHost op hr st =
     (let host = fst hr; result = snd hr; allErrs = fst st;
          lg = snd st @ logResponse op host result
      in if isPassing result then
           (allErrs, lg @ [LogInfo ''Retrieved tarball'' (tarballKeyValues op host)])
         else
           (let lg' = lg @ [LogError (err result) ''Failed to retrieve tarball''
                                     (tarballKeyValues op host)]
            in if isInternalError result then
                 (allErrs, lg' @ [skipWarning op host])
               else
                 (errors_Join [allErrs, Some (tarballError op host result)], lg')))"

definition processResult :: "nmaGetScrutinizeTarOp \<Rightarrow> error option \<times> logEvent list" where
  "processResult op =
     fold (processHost op) (ResultCollection (clusterHTTPRequest op)) (None, [])"

text \<open>The three classes of a per-host result, as the branches of the loop separate them.\<close>

definition isSkipped :: "hostHTTPResult \<Rightarrow> bool" where
  "isSkipped result = (\<not> isPassing result \<and> isInternalError result)"

definition isFatal :: "hostHTTPResult \<Rightarrow> bool" where
  "isFatal result = (\<not> isPassing result \<and> \<not> isInternalError result)"

definition fatalResults :: "(string \<times> hostHTTPResult) list \<Rightarrow> (string \<times> hostHTTPResult) list" where
  "fatalResults rc = filter (\<lambda>hr. isFatal (snd hr)) rc"


text \<open>
  \<^verbatim>\<open>allErrs\<close> after joining the errors \<open>es\<close>, one call of \<^verbatim>\<open>errors.Join\<close> each, onto
  \<open>acc\<close>; and the lines of text an accumulated error prints.
\<close>

definition joinAll :: "error option \<Rightarrow> error list \<Rightarrow> error option" where
  "joinAll acc es = fold (\<lambda>e a. errors_Join [a, Some e]) es acc"

definition acc_lines :: "error option \<Rightarrow> string list" where
  "acc_lines acc = (case acc of None \<Rightarrow> [] | Some a \<Rightarrow> [Error_msg a])"

section \<open>Host-set validation\<close>

text \<open>
  Modelled from the spec: the error of \<^verbatim>\<open>validateHostMaps\<close>, a configuration
  error. Its text is not given.
\<close>

definition hostMapMismatch :: error where
  "hostMapMismatch = ErrorString ''host sets do not match''"

text \<open>
  Modelled from the spec: \<^verbatim>\<open>validateHostMaps\<close> is declared outside the two source
  files. A host identifier must be present as a key in any host-to-name map an
  operation consumes, and validation fails fatally otherwise; the target hosts of an
  operation are a subset of the hosts that have an entry in the map (spec, section 3).
  \<^verbatim>\<open>prepare\<close> relies on this reading: it validates the single initiator against the
  whole map of the operation. A host has an entry when the map gives it a node name;
  indexing a Go map reads a missing key as the empty string, and an empty node name
  counts as missing.
\<close>

definition validateHostMaps :: "string list \<Rightarrow> (string \<times> string) list \<Rightarrow> error option" where
  "validateHostMaps hostList m =
     (if list_all (\<lambda>host. map_index m host \<noteq> []) hostList
      then None else Some hostMapMismatch)"

section \<open>The output directory\<close>

text \<open>
  Modelled from the spec: the constants \<^verbatim>\<open>scrutinizeRemoteOutputPath\<close> and
  \<^verbatim>\<open>GetMethod\<close> are declared outside the two source files. The comment of
  \<^verbatim>\<open>createOutputDir\<close> names the directory; requests are GET or POST.
\<close>

definition scrutinizeRemoteOutputPath :: string where
  "scrutinizeRemoteOutputPath = ''/tmp/scrutinize/remote''"

text \<open>
  Modelled from the spec: the constant \<^verbatim>\<open>GetMethod\<close> is declared outside the two
  source files; it names the GET method of a request.
\<close>

definition GetMethod :: string where
  "GetMethod = ''GET''"

text \<open>
  Modelled from the spec: \<^verbatim>\<open>util.CanWriteAccessDir\<close> and its result constants are
  declared outside the two source files; the check tells a missing directory, a
  directory that is not writable, and a ready one apart.
\<close>

datatype dirAccess = FileExist | FileNotExist | NoWritePerm

text \<open>
  The operating system is a parameter: a file-system state \<open>'fs\<close> and the two calls the
  operation makes on it. \<^verbatim>\<open>os.MkdirAll\<close> may change the state and may fail.
\<close>

record 'fs filesystem =
  MkdirAll :: "string \<Rightarrow> nat \<Rightarrow> 'fs \<Rightarrow> error option \<times> 'fs"
  CanWriteAccessDir :: "string \<Rightarrow> 'fs \<Rightarrow> dirAccess"

definition OwnerReadWriteExecute :: nat where
  "OwnerReadWriteExecute = 7 * 64"

definition outputDir :: "nmaGetScrutinizeTarOp \<Rightarrow> string" where
  "outputDir op = scrutinizeRemoteOutputPath @ ''/'' @ id_str op @ ''/''"

definition createOutputDir ::
  "'fs filesystem \<Rightarrow> nmaGetScrutinizeTarOp \<Rightarrow> 'fs \<Rightarrow> error option \<times> 'fs" where
  "createOutputDir os op fs =
     (case MkdirAll os (outputDir op) OwnerReadWriteExecute fs of
        (Some e, fs') \<Rightarrow> (Some e, fs')
      | (None, fs') \<Rightarrow>
          (let stagingDirPathAccess = CanWriteAccessDir os (outputDir op) fs'
           in if stagingDirPathAccess = FileNotExist then
                (Some (ErrorString (''opening scrutinize output directory failed: ''
                                    @ CHR 0x27 # outputDir op @ [CHR 0x27])), fs')
              else if stagingDirPathAccess = NoWritePerm then
                (Some (ErrorString (''scrutinize output directory not writeable: ''
                                    @ CHR 0x27 # outputDir op @ [CHR 0x27])), fs')
              else (None, fs')))"

text \<open>
  The constructor returns the operation and an error, and leaves the file system in a
  new state. The zero value of the struct has empty collections and both flags false.
\<close>

definition newOp ::
  "string \<Rightarrow> string \<Rightarrow> string list \<Rightarrow> (string \<times> string) list \<Rightarrow> nmaGetScrutinizeTarOp" where
  "newOp ident batchName hostList m =
     \<lparr>name = ''NMAGetScrutinizeTarOp'', hosts = hostList, skipExecute = False,
      clusterHTTPRequest = \<lparr>RequestCollection = [], ResultCollection = []\<rparr>,
      id_str = ident, batch = batchName, hostNodeNameMap = m, httpMethod = GetMethod,
      useInitiator = False\<rparr>"

definition makeNMAGetScrutinizeTarOp ::
  "'fs filesystem \<Rightarrow> string \<Rightarrow> string \<Rightarrow> string list \<Rightarrow> (string \<times> string) list \<Rightarrow> 'fs
     \<Rightarrow> nmaGetScrutinizeTarOp \<times> error option \<times> 'fs" where
  "makeNMAGetScrutinizeTarOp os ident batchName hostList m fs =
     (let op = newOp ident batchName hostList m
      in case validateHostMaps hostList m of
           Some e \<Rightarrow> (op, Some e, fs)
         | None \<Rightarrow> (case createOutputDir os op fs of (e, fs') \<Rightarrow> (op, e, fs')))"

definition useSingleHost :: "nmaGetScrutinizeTarOp \<Rightarrow> nmaGetScrutinizeTarOp" where
  "useSingleHost op = op\<lparr>useInitiator := True\<rparr>"

text \<open>
  A small file system to run the constructor on: the directories that exist, each with
  its owner-write permission. Every missing directory can be created, with the
  permission bits asked for; an existing one is left as it is.
\<close>

definition dirs_MkdirAll ::
  "string \<Rightarrow> nat \<Rightarrow> (string \<times> bool) list \<Rightarrow> error option \<times> (string \<times> bool) list" where
  "dirs_MkdirAll path perm fs =
     (case map_of fs path of
        Some w \<Rightarrow> (None, fs)
      | None \<Rightarrow> (None, (path, perm div 128 mod 2 = 1) # fs))"

definition dirs_CanWriteAccessDir :: "string \<Rightarrow> (string \<times> bool) list \<Rightarrow> dirAccess" where
  "dirs_CanWriteAccessDir path fs =
     (case map_of fs path of
        None \<Rightarrow> FileNotExist
      | Some w \<Rightarrow> if w then FileExist else NoWritePerm)"

definition dirs :: "(string \<times> bool) list filesystem" where
  "dirs = \<lparr>MkdirAll = dirs_MkdirAll, CanWriteAccessDir = dirs_CanWriteAccessDir\<rparr>"

section \<open>The execution context and the lifecycle of the operation\<close>

text \<open>
  Modelled from the spec: the dispatcher and \<^verbatim>\<open>setupForDownload\<close> are declared
  outside the two source files. An operation registers, ahead of dispatch, a mapping
  from host to an expected local file path; the dispatcher issues one request per host
  and gathers every host's outcome into one result collection. \<open>requestsSent\<close> lists the
  hosts a request was sent to.
\<close>

record requestDispatcher =
  downloadHosts :: "string list"
  downloadPaths :: "(string \<times> string) list"
  requestsSent :: "string list"

text \<open>
  Modelled from the spec: \<^verbatim>\<open>setupForDownload\<close> stores the hosts and the expected file
  path of each in the dispatcher.
\<close>

definition setupForDownload ::
  "string list \<Rightarrow> (string \<times> string) list \<Rightarrow> requestDispatcher \<Rightarrow> requestDispatcher" where
  "setupForDownload hostList hostToFilePathsMap d =
     d\<lparr>downloadHosts := hostList, downloadPaths := hostToFilePathsMap\<rparr>"

text \<open>
  Modelled from the spec: the struct \<^verbatim>\<open>opEngineExecContext\<close> is declared outside the
  two source files; it holds the hosts known to be up and the dispatcher.
\<close>

record opEngineExecContext =
  upHosts :: "string list"
  dispatcher :: requestDispatcher

text \<open>A panic is not an error value: a function that may panic returns an outcome.\<close>

datatype 'a outcome = Returns 'a | Panics

text \<open>
  Modelled from the spec: \<^verbatim>\<open>getInitiator\<close> is declared outside the two source files.
  The initiator is the first host of the list (the comment of \<^verbatim>\<open>useSingleHost\<close>:
  the first up node); no host can be chosen from an empty list.
\<close>

definition getInitiator :: "string list \<Rightarrow> string option" where
  "getInitiator hostList = (case hostList of [] \<Rightarrow> None | h # _ \<Rightarrow> Some h)"

text \<open>
  Modelled from the spec: \<^verbatim>\<open>setupClusterHTTPRequest\<close> is declared outside the two
  source files. It builds the per-host request, one for each host given, and returns
  no error.
\<close>

definition setupClusterHTTPRequest ::
  "nmaGetScrutinizeTarOp \<Rightarrow> string list \<Rightarrow> error option \<times> nmaGetScrutinizeTarOp" where
  "setupClusterHTTPRequest op hostList =
     (None,
      op\<lparr>clusterHTTPRequest := (clusterHTTPRequest op)
           \<lparr>RequestCollection :=
              fold (\<lambda>host rc. AList.update host \<lparr>Method = httpMethod op\<rparr> rc) hostList
                   (RequestCollection (clusterHTTPRequest op))\<rparr>\<rparr>)"

text \<open>The file path expected for a host, and the loop that fills the Go map.\<close>

definition hostFilePath :: "nmaGetScrutinizeTarOp \<Rightarrow> string \<Rightarrow> string" where
  "hostFilePath op host =
     scrutinizeRemoteOutputPath @ ''/'' @ id_str op @ ''/''
       @ map_index (hostNodeNameMap op) host @ ''-'' @ batch op @ ''.tgz''"

definition hostToFilePaths :: "nmaGetScrutinizeTarOp \<Rightarrow> (string \<times> string) list" where
  "hostToFilePaths op =
     fold (\<lambda>host m. AList.update host (hostFilePath op host) m) (hosts op) []"

text \<open>
  The last part of \<^verbatim>\<open>prepare\<close>, reached with or without an initiator: the map is
  built, handed to the dispatcher with the hosts, and the requests are set up; the
  error is that of \<^verbatim>\<open>setupClusterHTTPRequest\<close>.
\<close>

definition registerAndSetup ::
  "nmaGetScrutinizeTarOp \<Rightarrow> opEngineExecContext
     \<Rightarrow> error option \<times> nmaGetScrutinizeTarOp \<times> opEngineExecContext" where
  "registerAndSetup op execContext =
     (let execContext' = execContext\<lparr>dispatcher :=
            setupForDownload (hosts op) (hostToFilePaths op) (dispatcher execContext)\<rparr>
      in case setupClusterHTTPRequest op (hosts op) of
           (e, op') \<Rightarrow> (e, op', execContext'))"

text \<open>
  \<^verbatim>\<open>prepare\<close> returns the error, the operation and the context as it leaves them, and
  what it logged.
\<close>

definition noUpHostsWarning :: logEvent where
  "noUpHostsWarning =
     LogWarning ''no up hosts to collect system tables from, skipping the operation''"

definition prepare ::
  "nmaGetScrutinizeTarOp \<Rightarrow> opEngineExecContext
     \<Rightarrow> (error option \<times> nmaGetScrutinizeTarOp \<times> opEngineExecContext \<times> logEvent list) outcome"
  where
  "prepare op execContext =
     (if useInitiator op then
        (if length (upHosts execContext) = 0 then
           Returns (None, op\<lparr>skipExecute := True\<rparr>, execContext, [noUpHostsWarning])
         else
           (case getInitiator (upHosts execContext) of
              None \<Rightarrow> Panics
            | Some host \<Rightarrow>
                (let op1 = op\<lparr>hosts := [host]\<rparr>
                 in case validateHostMaps (hosts op1) (hostNodeNameMap op1) of
                      Some e \<Rightarrow> Returns (Some e, op1, execContext, [])
                    | None \<Rightarrow>
                        (case registerAndSetup op1 execContext of
                           (e, op2, execContext') \<Rightarrow> Returns (e, op2, execContext', [])))))
      else
        (case registerAndSetup op execContext of
           (e, op2, execContext') \<Rightarrow> Returns (e, op2, execContext', [])))"

text \<open>
  Modelled from the spec: \<^verbatim>\<open>runExecute\<close> and the dispatcher's send are declared
  outside the two source files. If \<^verbatim>\<open>skipExecute\<close> is set nothing is dispatched;
  otherwise one request per host of the request collection is issued and every host's
  outcome is gathered into the result collection. The answer of a host is the
  parameter \<open>respond\<close>.
\<close>

definition runExecute ::
  "(string \<Rightarrow> hostHTTPRequest \<Rightarrow> hostHTTPResult) \<Rightarrow> nmaGetScrutinizeTarOp \<Rightarrow> opEngineExecContext
     \<Rightarrow> error option \<times> nmaGetScrutinizeTarOp \<times> opEngineExecContext" where
  "runExecute respond op execContext =
     (if skipExecute op then (None, op, execContext)
      else
        (let requests = RequestCollection (clusterHTTPRequest op);
             d = dispatcher execContext
         in (None,
             op\<lparr>clusterHTTPRequest := (clusterHTTPRequest op)
                  \<lparr>ResultCollection := map (\<lambda>hq. (fst hq, respond (fst hq) (snd hq))) requests\<rparr>\<rparr>,
             execContext\<lparr>dispatcher := d\<lparr>requestsSent := requestsSent d @ map fst requests\<rparr>\<rparr>)))"

definition execute ::
  "(string \<Rightarrow> hostHTTPRequest \<Rightarrow> hostHTTPResult) \<Rightarrow> nmaGetScrutinizeTarOp \<Rightarrow> opEngineExecContext
     \<Rightarrow> error option \<times> nmaGetScrutinizeTarOp \<times> opEngineExecContext \<times> logEvent list" where
  "execute respond op execContext =
     (case runExecute respond op execContext of
        (Some e, op', execContext') \<Rightarrow> (Some e, op', execContext', [])
      | (None, op', execContext') \<Rightarrow>
          (case processResult op' of (e, lg) \<Rightarrow> (e, op', execContext', lg)))"

definition finalize :: "nmaGetScrutinizeTarOp \<Rightarrow> opEngineExecContext \<Rightarrow> error option" where
  "finalize op execContext = None"


section \<open>Database replication\<close>

text \<open>
  Modelled from the spec: the struct \<^verbatim>\<open>DatabaseOptions\<close> is declared outside the two
  source files; these are the fields the replication command reads and writes. A nil
  \<^verbatim>\<open>*string\<close> password is \<open>None\<close>.
\<close>

record DatabaseOptions =
  DBName :: string
  RawHosts :: "string list"
  Hosts :: "string list"
  IPv6 :: bool
  UserName :: string
  Password :: "string option"
  IsEon :: bool
  usePassword :: bool

text \<open>
  \<^verbatim>\<open>VReplicationDatabaseOptions\<close> embeds \<^verbatim>\<open>DatabaseOptions\<close> and
  \<^verbatim>\<open>ReplicationOptions\<close>: their fields are read through the outer struct.
\<close>

record VReplicationDatabaseOptions = DatabaseOptions +
  TargetDB :: DatabaseOptions
  SourceTLSConfig :: string
  SandboxName :: string
  Async :: bool
  TableOrSchemaName :: string
  IncludePattern :: string
  ExcludePattern :: string
  TargetNamespace :: string

text \<open>\<^verbatim>\<open>&options.DatabaseOptions\<close>, and storing an embedded struct back.\<close>

definition baseOptions :: "VReplicationDatabaseOptions \<Rightarrow> DatabaseOptions" where
  "baseOptions options =
     \<lparr>DBName = DBName options, RawHosts = RawHosts options, Hosts = Hosts options,
      IPv6 = IPv6 options, UserName = UserName options, Password = Password options,
      IsEon = IsEon options, usePassword = usePassword options\<rparr>"

definition setBaseOptions ::
  "DatabaseOptions \<Rightarrow> VReplicationDatabaseOptions \<Rightarrow> VReplicationDatabaseOptions" where
  "setBaseOptions b options =
     options\<lparr>DBName := DBName b, RawHosts := RawHosts b, Hosts := Hosts b, IPv6 := IPv6 b,
             UserName := UserName b, Password := Password b, IsEon := IsEon b,
             usePassword := usePassword b\<rparr>"

text \<open>The request bodies the asynchronous pipeline fills in.\<close>

record nmaReplicationStatusRequestData =
  DBName_status :: string
  ExcludedTransactionIDs :: "64 word list"
  GetTransactionIDsOnly :: bool
  TransactionID :: "64 word"
  UserName_status :: string
  Password_status :: "string option"

record nmaStartReplicationRequestData =
  DBName_start :: string
  ExcludePattern_start :: string
  IncludePattern_start :: string
  TableOrSchemaName_start :: string
  Username_start :: string
  Password_start :: "string option"
  TargetDBName :: string
  TargetHost :: string
  TargetNamespace_start :: string
  TargetUserName :: string
  TargetPassword :: "string option"
  TLSConfig :: string

text \<open>
  The two memory cells the pipeline shares by pointer: the slice of transaction
  identifiers allocated in \<^verbatim>\<open>produceDBReplicationInstructions\<close>, and the
  \<^verbatim>\<open>int64\<close> allocated in \<^verbatim>\<open>VReplicateDatabase\<close>.
\<close>

datatype pointer = transactionIDs | asyncReplicationTransactionID

text \<open>
  Modelled from the spec: the constructors of the operations are declared outside the
  two source files. An operation is the constructor that made it with the arguments
  it was given, in the order of the call; \<open>'vdb\<close> is the coordination database.
\<close>

datatype 'vdb clusterOp =
    NMAHealthOp "string list"
  | NMAReplicationStatusOp "string list" bool nmaReplicationStatusRequestData pointer
      "'vdb option"
  | NMAReplicationStartOp "string list" bool bool nmaStartReplicationRequestData 'vdb
  | NMAPollReplicationStatusOp DatabaseOptions bool string 'vdb pointer pointer
  | HTTPSDisallowMultipleNamespacesOp "string list" bool string "string option" string 'vdb
  | HTTPSStartReplicationOp string "string list" bool string "string option" bool
      DatabaseOptions string string string 'vdb

text \<open>The pointers an operation was given.\<close>

fun pointersOf :: "'vdb clusterOp \<Rightarrow> pointer list" where
  "pointersOf (NMAReplicationStatusOp h u d p v) = [p]"
| "pointersOf (NMAPollReplicationStatusOp t u s v p q) = [p, q]"
| "pointersOf other = []"

text \<open>
  Everything the command calls that is declared outside the two source files and is
  not modelled above is a parameter: the validators of the options, host-name
  resolution, the lookup of the running database, the current user name, whether a
  constructor rejects its arguments, and the engine. The engine's run returns its error
  and the value the pipeline last stored through the output pointer, if it stored one.
\<close>

record 'vdb environment =
  validateBaseOptions :: "DatabaseOptions \<Rightarrow> error option"
  validateAuthOptions :: "DatabaseOptions \<Rightarrow> error option"
  ValidateDBName :: "string \<Rightarrow> error option"
  ValidateSandboxName :: "string \<Rightarrow> error option"
  ValidateQualifiedObjectNamePattern :: "string \<Rightarrow> bool \<Rightarrow> error option"
  ValidateName :: "string \<Rightarrow> string \<Rightarrow> bool \<Rightarrow> error option"
  ResolveRawHostsToAddresses :: "string list \<Rightarrow> bool \<Rightarrow> error + string list"
  getVDBFromRunningDBIncludeSandbox :: "DatabaseOptions \<Rightarrow> string \<Rightarrow> error + 'vdb"
  setUsePasswordAndValidateUsernameIfNeeded :: "DatabaseOptions \<Rightarrow> error + DatabaseOptions"
  GetCurrentUsername :: "error + string"
  constructorError :: "'vdb clusterOp \<Rightarrow> error option"
  run :: "'vdb clusterOp list \<Rightarrow> DatabaseOptions \<Rightarrow> error option \<times> 64 word option"

definition validateRequiredOptions ::
  "'vdb environment \<Rightarrow> VReplicationDatabaseOptions \<Rightarrow> error option" where
  "validateRequiredOptions env options =
     (case validateBaseOptions env (baseOptions options) of
        Some e \<Rightarrow> Some e
      | None \<Rightarrow> None)"

definition validateEonOptions :: "VReplicationDatabaseOptions \<Rightarrow> error option" where
  "validateEonOptions options =
     (if \<not> IsEon options then Some (ErrorString ''replication is only supported in Eon mode'')
      else None)"

definition validateExtraOptions ::
  "'vdb environment \<Rightarrow> VReplicationDatabaseOptions \<Rightarrow> error option" where
  "validateExtraOptions env options =
     (if length (Hosts (TargetDB options)) = 0 then
        Some (ErrorString ''must specify a target host or target host list'')
      else if DBName (TargetDB options) = [] then
        Some (ErrorString ''must specify a target database name'')
      else case ValidateDBName env (DBName (TargetDB options)) of
        Some e \<Rightarrow> Some e
      | None \<Rightarrow>
          if UserName (TargetDB options) \<noteq> UserName options
             \<and> Password (TargetDB options) = None \<and> SourceTLSConfig options = []
          then Some (ErrorString
            ''only trust authentication can support username without password or TLSConfig'')
          else if SandboxName options \<noteq> [] then
            (case ValidateSandboxName env (SandboxName options) of
               Some e \<Rightarrow> Some e
             | None \<Rightarrow> None)
          else None)"

definition validateFineGrainedReplicationOptions ::
  "'vdb environment \<Rightarrow> VReplicationDatabaseOptions \<Rightarrow> error option" where
  "validateFineGrainedReplicationOptions env options =
     (case (if TableOrSchemaName options \<noteq> []
            then ValidateQualifiedObjectNamePattern env (TableOrSchemaName options) False
            else None) of
        Some e \<Rightarrow> Some e
      | None \<Rightarrow>
     (case (if IncludePattern options \<noteq> []
            then ValidateQualifiedObjectNamePattern env (IncludePattern options) True
            else None) of
        Some e \<Rightarrow> Some e
      | None \<Rightarrow>
     (case (if ExcludePattern options \<noteq> []
            then ValidateQualifiedObjectNamePattern env (ExcludePattern options) True
            else None) of
        Some e \<Rightarrow> Some e
      | None \<Rightarrow>
     (if TargetNamespace options \<noteq> []
      then ValidateName env (TargetNamespace options) ''target-namespace'' True
      else None))))"

definition validateParseOptions ::
  "'vdb environment \<Rightarrow> VReplicationDatabaseOptions \<Rightarrow> error option" where
  "validateParseOptions env options =
     (case validateRequiredOptions env options of
        Some e \<Rightarrow> Some e
      | None \<Rightarrow>
     (case validateEonOptions options of
        Some e \<Rightarrow> Some e
      | None \<Rightarrow>
     (case validateAuthOptions env (baseOptions options) of
        Some e \<Rightarrow> Some e
      | None \<Rightarrow>
     (case validateExtraOptions env options of
        Some e \<Rightarrow> Some e
      | None \<Rightarrow>
     (case validateFineGrainedReplicationOptions env options of
        Some e \<Rightarrow> Some e
      | None \<Rightarrow> None)))))"

text \<open>
  \<^verbatim>\<open>analyzeOptions\<close> rewrites the host lists of the options; it returns the options
  as it leaves them, or the error.
\<close>

definition analyzeOptions ::
  "'vdb environment \<Rightarrow> VReplicationDatabaseOptions \<Rightarrow> error + VReplicationDatabaseOptions" where
  "analyzeOptions env options =
     (case (if length (Hosts (TargetDB options)) > 0
            then (case ResolveRawHostsToAddresses env (Hosts (TargetDB options))
                         (IPv6 (TargetDB options)) of
                    Inl e \<Rightarrow> Inl e
                  | Inr addrs \<Rightarrow> Inr (options\<lparr>TargetDB := (TargetDB options)\<lparr>Hosts := addrs\<rparr>\<rparr>))
            else Inr options) of
        Inl e \<Rightarrow> Inl e
      | Inr options1 \<Rightarrow>
          if length (RawHosts options1) > 0
          then (case ResolveRawHostsToAddresses env (RawHosts options1) (IPv6 options1) of
                  Inl e \<Rightarrow> Inl e
                | Inr hostAddresses \<Rightarrow> Inr (options1\<lparr>Hosts := hostAddresses\<rparr>))
          else Inr options1)"

definition validateAnalyzeOptions ::
  "'vdb environment \<Rightarrow> VReplicationDatabaseOptions \<Rightarrow> error + VReplicationDatabaseOptions" where
  "validateAnalyzeOptions env options =
     (case validateParseOptions env options of
        Some e \<Rightarrow> Inl e
      | None \<Rightarrow> analyzeOptions env options)"

text \<open>A constructor that can fail: the environment says whether it rejects the operation.\<close>

definition construct :: "'vdb environment \<Rightarrow> 'vdb clusterOp \<Rightarrow> error + 'vdb clusterOp" where
  "construct env cop = (case constructorError env cop of Some e \<Rightarrow> Inl e | None \<Rightarrow> Inr cop)"

text \<open>
  The first part of \<^verbatim>\<open>produceDBReplicationInstructions\<close>: the user names. It returns
  the options as it leaves them and \<^verbatim>\<open>targetUsePassword\<close>.
\<close>

definition resolveUserNames ::
  "'vdb environment \<Rightarrow> VReplicationDatabaseOptions
     \<Rightarrow> error + (VReplicationDatabaseOptions \<times> bool)" where
  "resolveUserNames env options =
     (case setUsePasswordAndValidateUsernameIfNeeded env (baseOptions options) of
        Inl e \<Rightarrow> Inl e
      | Inr b \<Rightarrow>
          (let options1 = setBaseOptions b options
           in if Password (TargetDB options1) \<noteq> None then
                (if UserName (TargetDB options1) = [] then
                   (case GetCurrentUsername env of
                      Inl e \<Rightarrow> Inl e
                    | Inr username \<Rightarrow>
                        Inr (options1\<lparr>TargetDB := (TargetDB options1)\<lparr>UserName := username\<rparr>\<rparr>,
                             True))
                 else Inr (options1, True))
              else Inr (options1, False)))"

definition statusRequestData :: "VReplicationDatabaseOptions \<Rightarrow> nmaReplicationStatusRequestData" where
  "statusRequestData options =
     \<lparr>DBName_status = DBName (TargetDB options),
      ExcludedTransactionIDs = [],
      GetTransactionIDsOnly = True,
      TransactionID = 0,
      UserName_status = UserName (TargetDB options),
      Password_status = Password (TargetDB options)\<rparr>"

definition startRequestData ::
  "VReplicationDatabaseOptions \<Rightarrow> string \<Rightarrow> nmaStartReplicationRequestData" where
  "startRequestData options initiatorTargetHost =
     \<lparr>DBName_start = DBName options,
      ExcludePattern_start = ExcludePattern options,
      IncludePattern_start = IncludePattern options,
      TableOrSchemaName_start = TableOrSchemaName options,
      Username_start = UserName options,
      Password_start = Password options,
      TargetDBName = DBName (TargetDB options),
      TargetHost = initiatorTargetHost,
      TargetNamespace_start = TargetNamespace options,
      TargetUserName = UserName (TargetDB options),
      TargetPassword = Password (TargetDB options),
      TLSConfig = SourceTLSConfig options\<rparr>"

text \<open>The four operations of the asynchronous branch, and the two of the other one.\<close>

definition asyncInstructions ::
  "'vdb environment \<Rightarrow> VReplicationDatabaseOptions \<Rightarrow> bool \<Rightarrow> string \<Rightarrow> 'vdb \<Rightarrow> pointer
     \<Rightarrow> error + 'vdb clusterOp list" where
  "asyncInstructions env options targetUsePassword initiatorTargetHost vdb slot =
     (let nmaHealthOp = NMAHealthOp (Hosts options @ Hosts (TargetDB options))
      in case construct env (NMAReplicationStatusOp (Hosts (TargetDB options)) targetUsePassword
                               (statusRequestData options) transactionIDs None) of
           Inl e \<Rightarrow> Inl e
         | Inr nmaReplicationStatusOp \<Rightarrow>
      (case construct env (NMAReplicationStartOp (Hosts options) (usePassword options)
                             targetUsePassword (startRequestData options initiatorTargetHost)
                             vdb) of
           Inl e \<Rightarrow> Inl e
         | Inr nmaStartReplicationOp \<Rightarrow>
      (case construct env (NMAPollReplicationStatusOp (TargetDB options) targetUsePassword
                             (SandboxName options) vdb transactionIDs slot) of
           Inl e \<Rightarrow> Inl e
         | Inr nmaPollReplicationStatusOp \<Rightarrow>
             Inr [nmaHealthOp, nmaReplicationStatusOp, nmaStartReplicationOp,
                  nmaPollReplicationStatusOp])))"

definition syncInstructions ::
  "'vdb environment \<Rightarrow> VReplicationDatabaseOptions \<Rightarrow> bool \<Rightarrow> string \<Rightarrow> 'vdb
     \<Rightarrow> error + 'vdb clusterOp list" where
  "syncInstructions env options targetUsePassword initiatorTargetHost vdb =
     (case construct env (HTTPSDisallowMultipleNamespacesOp (Hosts options) (usePassword options)
                            (UserName options) (Password options) (SandboxName options) vdb) of
        Inl e \<Rightarrow> Inl e
      | Inr httpsDisallowMultipleNamespacesOp \<Rightarrow>
     (case construct env (HTTPSStartReplicationOp (DBName options) (Hosts options)
                            (usePassword options) (UserName options) (Password options)
                            targetUsePassword (TargetDB options) initiatorTargetHost
                            (SourceTLSConfig options) (SandboxName options) vdb) of
        Inl e \<Rightarrow> Inl e
      | Inr httpsStartReplicationOp \<Rightarrow>
          Inr [httpsDisallowMultipleNamespacesOp, httpsStartReplicationOp]))"

text \<open>
  \<^verbatim>\<open>produceDBReplicationInstructions\<close>: the error, or the instruction list together
  with the options as the function leaves them (it writes through the pointer it is
  given). It panics where \<^verbatim>\<open>getInitiator\<close> has no host to choose.
\<close>

definition produceDBReplicationInstructions ::
  "'vdb environment \<Rightarrow> VReplicationDatabaseOptions \<Rightarrow> 'vdb \<Rightarrow> pointer
     \<Rightarrow> (error + 'vdb clusterOp list \<times> VReplicationDatabaseOptions) outcome" where
  "produceDBReplicationInstructions env options vdb slot =
     (case resolveUserNames env options of
        Inl e \<Rightarrow> Returns (Inl e)
      | Inr (options1, targetUsePassword) \<Rightarrow>
          (case getInitiator (Hosts (TargetDB options1)) of
             None \<Rightarrow> Panics
           | Some initiatorTargetHost \<Rightarrow>
               (case (if Async options1
                      then asyncInstructions env options1 targetUsePassword
                             initiatorTargetHost vdb slot
                      else syncInstructions env options1 targetUsePassword
                             initiatorTargetHost vdb) of
                  Inl e \<Rightarrow> Returns (Inl e)
                | Inr instructions \<Rightarrow> Returns (Inr (instructions, options1)))))"

text \<open>
  The value of the cell allocated by \<^verbatim>\<open>new(int64)\<close> once the engine has run: it
  starts at 0 and only an operation that was given the pointer can store through it.
\<close>

definition slotAfterRun :: "'vdb clusterOp list \<Rightarrow> 64 word option \<Rightarrow> 64 word" where
  "slotAfterRun instructions stored =
     (if list_ex (\<lambda>cop. List.member (pointersOf cop) asyncReplicationTransactionID) instructions
      then (case stored of None \<Rightarrow> 0 | Some v \<Rightarrow> v)
      else 0)"

definition authenticationHint :: error where
  "authenticationHint = ErrorString
     (''target database authentication failed, need to do one of the following things: ''
      @ ''1. provide tlsconfig or target username with password ''
      @ ''2. set EnableConnectCredentialForwarding to True in source database using vsql ''
      @ ''3. configure a Trust Authentication in target database using vsql'')"

definition VReplicateDatabase ::
  "'vdb environment \<Rightarrow> VReplicationDatabaseOptions \<Rightarrow> (64 word \<times> error option) outcome" where
  "VReplicateDatabase env options =
     (case validateAnalyzeOptions env options of
        Inl e \<Rightarrow> Returns (0, Some e)
      | Inr options1 \<Rightarrow>
     (case getVDBFromRunningDBIncludeSandbox env (baseOptions options1) (SandboxName options1) of
        Inl e \<Rightarrow> Returns (0, Some e)
      | Inr vdb \<Rightarrow>
     (case produceDBReplicationInstructions env options1 vdb asyncReplicationTransactionID of
        Panics \<Rightarrow> Panics
      | Returns (Inl e) \<Rightarrow>
          Returns (0, Some (fmt_Errorf_w ''fail to produce instructions, '' (Some e)))
      | Returns (Inr (instructions, options2)) \<Rightarrow>
     (case run env instructions (baseOptions options2) of
        (Some runError, stored) \<Rightarrow>
          (let runError' =
                 (if sublist ''EnableConnectCredentialForwarding is false'' (Error_msg runError)
                  then authenticationHint else runError)
           in Returns (0, Some (fmt_Errorf_w ''fail to replicate database: '' (Some runError'))))
      | (None, stored) \<Rightarrow> Returns (slotAfterRun instructions stored, None)))))"

text \<open>The first non-nil error of a list of results, in order.\<close>

definition firstError :: "error option list \<Rightarrow> error option" where
  "firstError errs = (case List.map_filter (\<lambda>e. e) errs of [] \<Rightarrow> None | e # es \<Rightarrow> Some e)"

section \<open>Concrete inputs\<close>

text \<open>Per-host results of the three classes, and operations that hold them.\<close>

definition passed :: hostHTTPResult where
  "passed = \<lparr>passing = True, internalError = False, err = None, content = ''tarball''\<rparr>"

definition nothingToTar :: hostHTTPResult where
  "nothingToTar = \<lparr>passing = False, internalError = True,
                   err = Some (ErrorString ''nothing to tar''), content = []\<rparr>"

definition refused :: hostHTTPResult where
  "refused = \<lparr>passing = False, internalError = False,
              err = Some (ErrorString ''connection refused''), content = []\<rparr>"

definition unauthorized :: hostHTTPResult where
  "unauthorized = \<lparr>passing = False, internalError = False,
              err = Some (ErrorString ''unauthorized''), content = []\<rparr>"

definition withResults ::
  "(string \<times> hostHTTPResult) list \<Rightarrow> nmaGetScrutinizeTarOp \<Rightarrow> nmaGetScrutinizeTarOp" where
  "withResults rc op = op\<lparr>clusterHTTPRequest := (clusterHTTPRequest op)\<lparr>ResultCollection := rc\<rparr>\<rparr>"

definition threeHosts :: nmaGetScrutinizeTarOp where
  "threeHosts =
     withResults [(''A'', passed), (''B'', nothingToTar), (''C'', refused)]
       (newOp ''id1'' ''b1'' [''A'', ''B'', ''C'']
          [(''A'', ''node1''), (''B'', ''node2''), (''C'', ''node3'')])"

definition twoFatal :: nmaGetScrutinizeTarOp where
  "twoFatal =
     withResults [(''A'', refused), (''B'', unauthorized)]
       (newOp ''id1'' ''b1'' [''A'', ''B''] [(''A'', ''node1''), (''B'', ''node2'')])"

text \<open>Execution contexts, and operations as the constructor returns them.\<close>

definition noHostsUp :: opEngineExecContext where
  "noHostsUp = \<lparr>upHosts = [],
                dispatcher = \<lparr>downloadHosts = [], downloadPaths = [], requestsSent = []\<rparr>\<rparr>"

definition hostsUp :: opEngineExecContext where
  "hostsUp = \<lparr>upHosts = [''A'', ''B''],
              dispatcher = \<lparr>downloadHosts = [], downloadPaths = [], requestsSent = []\<rparr>\<rparr>"

definition oneHost :: nmaGetScrutinizeTarOp where
  "oneHost = fst (makeNMAGetScrutinizeTarOp dirs ''id1'' ''b1'' [''A''] [(''A'', ''node1'')] [])"

definition twoHosts :: nmaGetScrutinizeTarOp where
  "twoHosts = fst (makeNMAGetScrutinizeTarOp dirs ''id1'' ''b1'' [''A'', ''B'']
                     [(''A'', ''node1''), (''B'', ''node2'')] [])"

text \<open>
  Hosts that answer with the results above, and operations whose requests are set up.
\<close>

definition answers :: "string \<Rightarrow> hostHTTPRequest \<Rightarrow> hostHTTPResult" where
  "answers host request =
     (if host = ''A'' then passed else if host = ''B'' then nothingToTar else refused)"

definition bothFail :: "string \<Rightarrow> hostHTTPRequest \<Rightarrow> hostHTTPResult" where
  "bothFail host request = (if host = ''A'' then refused else unauthorized)"

definition threeRequests :: nmaGetScrutinizeTarOp where
  "threeRequests =
     snd (setupClusterHTTPRequest
            (newOp ''id1'' ''b1'' [''A'', ''B'', ''C'']
               [(''A'', ''node1''), (''B'', ''node2''), (''C'', ''node3'')])
            [''A'', ''B'', ''C''])"

definition twoRequests :: nmaGetScrutinizeTarOp where
  "twoRequests =
     snd (setupClusterHTTPRequest
            (newOp ''id1'' ''b1'' [''A'', ''B''] [(''A'', ''node1''), (''B'', ''node2'')])
            [''A'', ''B''])"

text \<open>
  Environments and options for the replication command: one in which every validator
  and constructor accepts and the engine stores 42 through the output pointer, one that
  checks the database name, and one whose engine fails.
\<close>

definition permissive :: "unit environment" where
  "permissive =
     \<lparr>validateBaseOptions = (\<lambda>b. None),
      validateAuthOptions = (\<lambda>b. None),
      ValidateDBName = (\<lambda>n. None),
      ValidateSandboxName = (\<lambda>n. None),
      ValidateQualifiedObjectNamePattern = (\<lambda>n p. None),
      ValidateName = (\<lambda>n k p. None),
      ResolveRawHostsToAddresses = (\<lambda>hs v6. Inr hs),
      getVDBFromRunningDBIncludeSandbox = (\<lambda>b s. Inr ()),
      setUsePasswordAndValidateUsernameIfNeeded = (\<lambda>b. Inr b),
      GetCurrentUsername = Inr ''dbadmin'',
      constructorError = (\<lambda>cop. None),
      run = (\<lambda>ins b. (None, Some 42))\<rparr>"

definition targetDatabase :: DatabaseOptions where
  "targetDatabase =
     \<lparr>DBName = ''target_db'', RawHosts = [], Hosts = [''10.0.1.1'', ''10.0.1.2''], IPv6 = False,
      UserName = ''dbadmin'', Password = None, IsEon = True, usePassword = False\<rparr>"

definition asyncOptions :: VReplicationDatabaseOptions where
  "asyncOptions =
     \<lparr>DBName = ''source_db'', RawHosts = [], Hosts = [''10.0.0.1''], IPv6 = False,
      UserName = ''dbadmin'', Password = None, IsEon = True, usePassword = False,
      TargetDB = targetDatabase, SourceTLSConfig = [], SandboxName = [], Async = True,
      TableOrSchemaName = [], IncludePattern = [], ExcludePattern = [], TargetNamespace = []\<rparr>"

definition syncOptions :: VReplicationDatabaseOptions where
  "syncOptions = asyncOptions\<lparr>Async := False\<rparr>"

definition enterpriseOptions :: VReplicationDatabaseOptions where
  "enterpriseOptions = asyncOptions\<lparr>IsEon := False\<rparr>"

definition unnamedEnterpriseOptions :: VReplicationDatabaseOptions where
  "unnamedEnterpriseOptions = asyncOptions\<lparr>DBName := [], IsEon := False\<rparr>"

definition nameChecking :: "unit environment" where
  "nameChecking =
     permissive\<lparr>validateBaseOptions :=
       (\<lambda>b. if DBName b = [] then Some (ErrorString ''must specify a database name'')
            else None)\<rparr>"

definition engineFails :: "unit environment" where
  "engineFails =
     permissive\<lparr>run := (\<lambda>ins b.
       (Some (ErrorString ''source: EnableConnectCredentialForwarding is false''), None))\<rparr>"


section \<open>Classification of the per-host results\<close>

lemma errors_Join_pair:
  "errors_Join [a, Some e] = Some (JoinError (case a of None \<Rightarrow> [e] | Some x \<Rightarrow> [x, e]))"
  by (cases a) (simp_all add: errors_Join_def List.map_filter_simps)

lemma processHost_fst:
  "fst (processHost op hr st) =
     (if isFatal (snd hr) then errors_Join [fst st, Some (tarballError op (fst hr) (snd hr))]
      else fst st)"
  by (simp add: processHost_def Let_def isFatal_def)

lemma fold_processHost_fst:
  "fst (fold (processHost op) rc st) =
     joinAll (fst st) (map (\<lambda>hr. tarballError op (fst hr) (snd hr)) (fatalResults rc))"
proof (induction rc arbitrary: st)
  case Nil
  show ?case by (simp add: joinAll_def fatalResults_def)
next
  case (Cons hr rc)
  have "fst (fold (processHost op) (hr # rc) st) = fst (fold (processHost op) rc (processHost op hr st))"
    by simp
  also have "\<dots> = joinAll (fst (processHost op hr st))
                      (map (\<lambda>hr. tarballError op (fst hr) (snd hr)) (fatalResults rc))"
    by (rule Cons.IH)
  also have "\<dots> = joinAll (fst st)
                      (map (\<lambda>hr. tarballError op (fst hr) (snd hr)) (fatalResults (hr # rc)))"
    by (simp add: processHost_fst fatalResults_def joinAll_def)
  finally show ?case .
qed

lemma join_newline_cons: "ls \<noteq> [] \<Longrightarrow> join_newline (l # ls) = l @ CHR 0x0A # join_newline ls"
  by (cases ls) simp_all

lemma join_newline_merge:
  "join_newline ((a @ CHR 0x0A # b) # ls) = join_newline (a # b # ls)"
  by (cases ls) simp_all


lemma joinAll_msg:
  "map_option Error_msg (joinAll acc es) =
     (if acc = None \<and> es = [] then None
      else Some (join_newline (acc_lines acc @ map Error_msg es)))"
proof (induction es arbitrary: acc)
  case Nil
  show ?case by (cases acc) (simp_all add: joinAll_def acc_lines_def)
next
  case (Cons e es)
  have step: "joinAll acc (e # es) = joinAll (errors_Join [acc, Some e]) es"
    by (simp add: joinAll_def)
  show ?case
    unfolding step Cons.IH
    by (cases acc) (simp_all add: errors_Join_pair acc_lines_def join_newline_merge)
qed

lemma joinAll_None_iff: "joinAll acc es = None \<longleftrightarrow> acc = None \<and> es = []"
  using joinAll_msg [of acc es] by (auto split: if_splits)

lemma joinAll_leaves:
  "joinAll acc es = Some x \<Longrightarrow>
     joined_errors x = (case acc of None \<Rightarrow> [] | Some a \<Rightarrow> joined_errors a) @ concat (map joined_errors es)"
proof (induction es arbitrary: acc x)
  case Nil
  then show ?case by (cases acc) (simp_all add: joinAll_def)
next
  case (Cons e es)
  have step: "joinAll acc (e # es) = joinAll (errors_Join [acc, Some e]) es"
    by (simp add: joinAll_def)
  from Cons.prems have "joinAll (errors_Join [acc, Some e]) es = Some x"
    by (simp add: step)
  from Cons.IH [OF this] show ?case
    by (cases acc) (simp_all add: errors_Join_pair)
qed

lemma sublist_join_newline: "l \<in> set ls \<Longrightarrow> sublist l (join_newline ls)"
proof (induction ls rule: join_newline.induct)
  case 1
  then show ?case by simp
next
  case (2 s)
  then show ?case by simp
next
  case (3 s t ss)
  show ?case
  proof (cases "l = s")
    case True
    then show ?thesis by simp
  next
    case False
    with 3 have "sublist l (join_newline (t # ss))" by simp
    then have "sublist l (CHR 0x0A # join_newline (t # ss))" by (simp add: sublist_Cons_right)
    then show ?thesis by (simp add: sublist_append)
  qed
qed



lemma tarballError_withResults: "tarballError (withResults rc op) = tarballError op"
  by (rule ext, rule ext) (simp add: tarballError_def withResults_def)

lemma fatalResults_idem: "fatalResults (fatalResults rc) = fatalResults rc"
  by (simp add: fatalResults_def)

lemma processResult_fst:
  "fst (processResult op) =
     joinAll None (map (\<lambda>hr. tarballError op (fst hr) (snd hr))
                       (fatalResults (ResultCollection (clusterHTTPRequest op))))"
  by (simp add: processResult_def fold_processHost_fst)

lemma processHost_log_mono: "set (snd st) \<subseteq> set (snd (processHost op hr st))"
  by (auto simp: processHost_def Let_def)

lemma fold_processHost_log_mono: "set (snd st) \<subseteq> set (snd (fold (processHost op) rc st))"
proof (induction rc arbitrary: st)
  case Nil
  show ?case by simp
next
  case (Cons hr rc)
  have "set (snd st) \<subseteq> set (snd (processHost op hr st))" by (rule processHost_log_mono)
  also have "\<dots> \<subseteq> set (snd (fold (processHost op) rc (processHost op hr st)))" by (rule Cons.IH)
  finally show ?case by simp
qed

lemma processHost_warns:
  "isSkipped (snd hr) \<Longrightarrow> skipWarning op (fst hr) \<in> set (snd (processHost op hr st))"
  by (simp add: processHost_def Let_def isSkipped_def)

lemma fold_processHost_warns:
  "hr \<in> set rc \<Longrightarrow> isSkipped (snd hr) \<Longrightarrow>
     skipWarning op (fst hr) \<in> set (snd (fold (processHost op) rc st))"
proof (induction rc arbitrary: st)
  case Nil
  then show ?case by simp
next
  case (Cons x rc)
  show ?case
  proof (cases "hr = x")
    case True
    with Cons.prems have "skipWarning op (fst hr) \<in> set (snd (processHost op x st))"
      by (simp add: processHost_warns)
    then show ?thesis using fold_processHost_log_mono [of "processHost op x st" op rc] by auto
  next
    case False
    with Cons.prems have "hr \<in> set rc" by simp
    from Cons.IH [OF this Cons.prems(2)] show ?thesis by simp
  qed
qed

text \<open>
  Claim C1. Whatever the result collection holds and in whatever order it is visited,
  \<^verbatim>\<open>processResult\<close> returns the error it would return on the fatal results alone:
  a passing host and a host with an internal error add nothing to it. The returned
  error is nil exactly when every host passed or failed with an internal error, and
  every host with an internal error is logged with the skip warning. \<^verbatim>\<open>execute\<close>
  returns the error of \<^verbatim>\<open>processResult\<close> on the collection the dispatch left.
\<close>

theorem processResult_joins_only_fatal_hosts:
  "fst (processResult op) =
     fst (processResult (withResults (fatalResults (ResultCollection (clusterHTTPRequest op))) op))
   \<and> (fst (processResult op) = None
        \<longleftrightarrow> (\<forall>hr \<in> set (ResultCollection (clusterHTTPRequest op)).
               isPassing (snd hr) \<or> isSkipped (snd hr)))
   \<and> (\<forall>hr \<in> set (ResultCollection (clusterHTTPRequest op)).
        isSkipped (snd hr) \<longrightarrow> skipWarning op (fst hr) \<in> set (snd (processResult op)))
   \<and> fst (execute respond op execContext)
       = (case runExecute respond op execContext of
            (Some e, op', execContext') \<Rightarrow> Some e
          | (None, op', execContext') \<Rightarrow> fst (processResult op'))"
proof (intro conjI)
  show "fst (processResult op) =
     fst (processResult (withResults (fatalResults (ResultCollection (clusterHTTPRequest op))) op))"
    by (simp add: processResult_fst tarballError_withResults fatalResults_idem)
       (simp add: withResults_def fatalResults_idem)
next
  have "fatalResults (ResultCollection (clusterHTTPRequest op)) = []
        \<longleftrightarrow> (\<forall>hr \<in> set (ResultCollection (clusterHTTPRequest op)).
               isPassing (snd hr) \<or> isSkipped (snd hr))"
    by (auto simp: fatalResults_def filter_empty_conv isFatal_def isSkipped_def)
  then show "fst (processResult op) = None
        \<longleftrightarrow> (\<forall>hr \<in> set (ResultCollection (clusterHTTPRequest op)).
               isPassing (snd hr) \<or> isSkipped (snd hr))"
    by (simp add: processResult_fst joinAll_None_iff)
next
  show "\<forall>hr \<in> set (ResultCollection (clusterHTTPRequest op)).
        isSkipped (snd hr) \<longrightarrow> skipWarning op (fst hr) \<in> set (snd (processResult op))"
    by (simp add: processResult_def fold_processHost_warns)
next
  show "fst (execute respond op execContext)
       = (case runExecute respond op execContext of
            (Some e, op', execContext') \<Rightarrow> Some e
          | (None, op', execContext') \<Rightarrow> fst (processResult op'))"
    by (simp add: execute_def split: prod.splits option.splits)
qed

theorem processResult_joins_only_fatal_hosts_witness:
  "isPassing passed \<and> isSkipped nothingToTar \<and> isFatal refused
   \<and> fst (processResult threeHosts)
       = fst (processResult (withResults [(''C'', refused)] threeHosts))
   \<and> fst (processResult threeHosts) \<noteq> None
   \<and> LogWarning ''Failed to tar batch b1 on host B. Skipping.''
       \<in> set (snd (processResult threeHosts))
   \<and> map_option Error_msg (fst (execute answers threeRequests hostsUp))
       = Some ''failed to retrieve tarball batch b1 on host C, details connection refused''"
proof -
  have cls: "isPassing passed" "isSkipped nothingToTar" "isFatal refused"
            "\<not> isFatal passed" "\<not> isFatal nothingToTar" "\<not> isPassing refused" "\<not> isSkipped refused"
    by (simp_all add: isFatal_def isSkipped_def isPassing_def isInternalError_def passed_def
          nothingToTar_def refused_def)
  have rc: "ResultCollection (clusterHTTPRequest threeHosts)
              = [(''A'', passed), (''B'', nothingToTar), (''C'', refused)]"
    by (simp add: threeHosts_def withResults_def)
  have fr: "fatalResults [(''A'', passed), (''B'', nothingToTar), (''C'', refused)]
              = [(''C'', refused)]"
    by (simp add: fatalResults_def cls)
  have w: "skipWarning threeHosts ''B'' = LogWarning ''Failed to tar batch b1 on host B. Skipping.''"
    by (simp add: skipWarning_def threeHosts_def withResults_def newOp_def)
  note T = processResult_joins_only_fatal_hosts [of threeHosts answers hostsUp, unfolded rc fr]
  from T have 1: "fst (processResult threeHosts)
       = fst (processResult (withResults [(''C'', refused)] threeHosts))"
    by (rule conjunct1)
  from T [THEN conjunct2, THEN conjunct1] cls
  have 2: "fst (processResult threeHosts) \<noteq> None" by simp
  from T [THEN conjunct2, THEN conjunct2, THEN conjunct1] cls w
  have 3: "LogWarning ''Failed to tar batch b1 on host B. Skipping.''
       \<in> set (snd (processResult threeHosts))" by simp
  have "\<exists>op' ctx'. runExecute answers threeRequests hostsUp = (None, op', ctx')
              \<and> ResultCollection (clusterHTTPRequest op')
                   = [(''A'', passed), (''B'', nothingToTar), (''C'', refused)]
              \<and> batch op' = ''b1''"
    by (simp add: runExecute_def threeRequests_def setupClusterHTTPRequest_def newOp_def
          answers_def Let_def)
  then obtain op' ctx' where r: "runExecute answers threeRequests hostsUp = (None, op', ctx')"
    and rc': "ResultCollection (clusterHTTPRequest op')
                   = [(''A'', passed), (''B'', nothingToTar), (''C'', refused)]"
    and b: "batch op' = ''b1''" by blast
  have "map_option Error_msg (fst (processResult op'))
       = Some ''failed to retrieve tarball batch b1 on host C, details connection refused''"
    by (simp add: processResult_fst rc' b fatalResults_def isFatal_def isPassing_def
          isInternalError_def passed_def nothingToTar_def refused_def joinAll_def
          errors_Join_pair tarballError_def fmt_Errorf_w_def)
  with processResult_joins_only_fatal_hosts [of threeRequests answers hostsUp,
         THEN conjunct2, THEN conjunct2, THEN conjunct2] r
  have 4: "map_option Error_msg (fst (execute answers threeRequests hostsUp))
       = Some ''failed to retrieve tarball batch b1 on host C, details connection refused''"
    by simp
  from cls 1 2 3 4 show ?thesis by simp
qed

text \<open>
  Claim C2. The text of the error returned by \<^verbatim>\<open>processResult\<close> is the message of
  every fatal host, one per line in visiting order, and nil only if there is no fatal
  host. For each fatal host the error built for it is among the joined errors of the
  returned value, and its message is part of the returned text. That error is what
  \<^verbatim>\<open>execute\<close> returns for the operation \<open>op\<close> that the dispatch leaves.
\<close>

theorem processResult_keeps_every_fatal_message:
  "map_option Error_msg (fst (processResult op)) =
     (if fatalResults (ResultCollection (clusterHTTPRequest op)) = [] then None
      else Some (join_newline (map (\<lambda>hr. Error_msg (tarballError op (fst hr) (snd hr)))
                                  (fatalResults (ResultCollection (clusterHTTPRequest op))))))
   \<and> (\<forall>hr \<in> set (ResultCollection (clusterHTTPRequest op)). isFatal (snd hr) \<longrightarrow>
        (\<exists>e. fst (processResult op) = Some e
            \<and> tarballError op (fst hr) (snd hr) \<in> set (joined_errors e)
            \<and> sublist (Error_msg (tarballError op (fst hr) (snd hr))) (Error_msg e)))
   \<and> (runExecute respond op0 execContext = (None, op, execContext') \<longrightarrow>
        fst (execute respond op0 execContext) = fst (processResult op))"
proof (intro conjI ballI impI)
  let ?fs = "fatalResults (ResultCollection (clusterHTTPRequest op))"
  let ?es = "map (\<lambda>hr. tarballError op (fst hr) (snd hr)) ?fs"
  have msg: "map_option Error_msg (fst (processResult op)) =
     (if ?fs = [] then None else Some (join_newline (map Error_msg ?es)))"
    by (simp add: processResult_fst joinAll_msg acc_lines_def)
  then show "map_option Error_msg (fst (processResult op)) =
     (if ?fs = [] then None
      else Some (join_newline (map (\<lambda>hr. Error_msg (tarballError op (fst hr) (snd hr))) ?fs)))"
    by (simp add: comp_def)
  fix hr
  assume mem: "hr \<in> set (ResultCollection (clusterHTTPRequest op))" and fatal: "isFatal (snd hr)"
  then have in_fs: "hr \<in> set ?fs" by (simp add: fatalResults_def)
  then have ne: "?fs \<noteq> []" by auto
  with msg obtain e where e: "fst (processResult op) = Some e"
    and em: "Error_msg e = join_newline (map Error_msg ?es)"
    by (auto split: if_splits)
  from in_fs have in_es: "tarballError op (fst hr) (snd hr) \<in> set ?es" by force
  have leaf: "joined_errors (tarballError op (fst hr) (snd hr)) = [tarballError op (fst hr) (snd hr)]"
    by (simp add: tarballError_def fmt_Errorf_w_def split: option.split)
  from e have "joined_errors e = concat (map joined_errors ?es)"
    using joinAll_leaves [of None ?es e] by (simp add: processResult_fst)
  with in_es leaf have "tarballError op (fst hr) (snd hr) \<in> set (joined_errors e)"
    by force
  moreover from in_es have "sublist (Error_msg (tarballError op (fst hr) (snd hr))) (Error_msg e)"
    unfolding em by (intro sublist_join_newline) force
  ultimately show "\<exists>e. fst (processResult op) = Some e
            \<and> tarballError op (fst hr) (snd hr) \<in> set (joined_errors e)
            \<and> sublist (Error_msg (tarballError op (fst hr) (snd hr))) (Error_msg e)"
    using e by blast
next
  assume "runExecute respond op0 execContext = (None, op, execContext')"
  then show "fst (execute respond op0 execContext) = fst (processResult op)"
    by (simp add: execute_def split: prod.splits)
qed


theorem processResult_keeps_every_fatal_message_witness:
  "isFatal refused \<and> isFatal unauthorized
   \<and> map_option Error_msg (fst (processResult twoFatal)) =
       Some (''failed to retrieve tarball batch b1 on host A, details connection refused''
             @ CHR 0x0A # ''failed to retrieve tarball batch b1 on host B, details unauthorized'')
   \<and> (\<exists>e. fst (processResult twoFatal) = Some e
          \<and> sublist ''failed to retrieve tarball batch b1 on host A, details connection refused''
               (Error_msg e)
          \<and> sublist ''failed to retrieve tarball batch b1 on host B, details unauthorized''
               (Error_msg e))
   \<and> map_option Error_msg (fst (execute bothFail twoRequests hostsUp)) =
       Some (''failed to retrieve tarball batch b1 on host A, details connection refused''
             @ CHR 0x0A # ''failed to retrieve tarball batch b1 on host B, details unauthorized'')"
proof -
  have cls: "isFatal refused" "isFatal unauthorized"
    by (simp_all add: isFatal_def isPassing_def isInternalError_def refused_def unauthorized_def)
  have rc: "ResultCollection (clusterHTTPRequest twoFatal)
              = [(''A'', refused), (''B'', unauthorized)]"
    by (simp add: twoFatal_def withResults_def)
  have fr: "fatalResults [(''A'', refused), (''B'', unauthorized)]
              = [(''A'', refused), (''B'', unauthorized)]"
    by (simp add: fatalResults_def cls)
  have a: "Error_msg (tarballError twoFatal ''A'' refused)
             = ''failed to retrieve tarball batch b1 on host A, details connection refused''"
    by (simp add: tarballError_def fmt_Errorf_w_def twoFatal_def withResults_def newOp_def
          refused_def)
  have b: "Error_msg (tarballError twoFatal ''B'' unauthorized)
             = ''failed to retrieve tarball batch b1 on host B, details unauthorized''"
    by (simp add: tarballError_def fmt_Errorf_w_def twoFatal_def withResults_def newOp_def
          unauthorized_def)
  note T = processResult_keeps_every_fatal_message
             [of twoFatal bothFail twoRequests hostsUp hostsUp, unfolded rc fr]
  from T [THEN conjunct1] a b
  have 1: "map_option Error_msg (fst (processResult twoFatal)) =
       Some (''failed to retrieve tarball batch b1 on host A, details connection refused''
             @ CHR 0x0A # ''failed to retrieve tarball batch b1 on host B, details unauthorized'')"
    by simp
  from T [THEN conjunct2, THEN conjunct1] cls a b
  have 2: "\<exists>e. fst (processResult twoFatal) = Some e
          \<and> sublist ''failed to retrieve tarball batch b1 on host A, details connection refused''
               (Error_msg e)
          \<and> sublist ''failed to retrieve tarball batch b1 on host B, details unauthorized''
               (Error_msg e)"
    by auto
  have "\<exists>op' ctx'. runExecute bothFail twoRequests hostsUp = (None, op', ctx')
              \<and> ResultCollection (clusterHTTPRequest op')
                   = [(''A'', refused), (''B'', unauthorized)]
              \<and> batch op' = ''b1''"
    by (simp add: runExecute_def twoRequests_def setupClusterHTTPRequest_def newOp_def
          bothFail_def Let_def)
  then obtain op' ctx' where r: "runExecute bothFail twoRequests hostsUp = (None, op', ctx')"
    and rc': "ResultCollection (clusterHTTPRequest op')
                   = [(''A'', refused), (''B'', unauthorized)]"
    and b': "batch op' = ''b1''" by blast
  have a'': "Error_msg (tarballError op' ''A'' refused)
             = ''failed to retrieve tarball batch b1 on host A, details connection refused''"
    by (simp add: tarballError_def fmt_Errorf_w_def b' refused_def)
  have b'': "Error_msg (tarballError op' ''B'' unauthorized)
             = ''failed to retrieve tarball batch b1 on host B, details unauthorized''"
    by (simp add: tarballError_def fmt_Errorf_w_def b' unauthorized_def)
  note U = processResult_keeps_every_fatal_message
             [of op' bothFail twoRequests hostsUp ctx', unfolded rc' fr]
  from U [THEN conjunct1] a'' b''
  have "map_option Error_msg (fst (processResult op')) =
       Some (''failed to retrieve tarball batch b1 on host A, details connection refused''
             @ CHR 0x0A # ''failed to retrieve tarball batch b1 on host B, details unauthorized'')"
    by simp
  with U [THEN conjunct2, THEN conjunct2] r
  have 3: "map_option Error_msg (fst (execute bothFail twoRequests hostsUp)) =
       Some (''failed to retrieve tarball batch b1 on host A, details connection refused''
             @ CHR 0x0A # ''failed to retrieve tarball batch b1 on host B, details unauthorized'')"
    by simp
  from cls 1 2 3 show ?thesis by simp
qed

section \<open>Host-set validation and the preparation of the operation\<close>


lemma map_of_fold_update:
  "map_of (fold (\<lambda>h m. AList.update h (f h) m) hs m0) k =
     (if k \<in> set hs then Some (f k) else map_of m0 k)"
  by (induction hs arbitrary: m0) (simp_all add: update_conv')

lemma keys_fold_update:
  "fst ` set (fold (\<lambda>h m. AList.update h (f h) m) hs m0) = set hs \<union> fst ` set m0"
proof (induction hs arbitrary: m0)
  case Nil
  show ?case by simp
next
  case (Cons h hs)
  have "fst ` set (AList.update h (f h) m0) = insert h (fst ` set m0)"
    using dom_update [of h "f h" m0] by (simp add: dom_map_of_conv_image_fst)
  then show ?case by (simp add: Cons.IH)
qed

lemma distinct_fold_update:
  "distinct (map fst m0) \<Longrightarrow> distinct (map fst (fold (\<lambda>h m. AList.update h (f h) m) hs m0))"
  by (induction hs arbitrary: m0) (simp_all add: distinct_update)

lemma hostToFilePaths_lookup:
  "map_of (hostToFilePaths op) h = (if h \<in> set (hosts op) then Some (hostFilePath op h) else None)"
  by (simp add: hostToFilePaths_def map_of_fold_update)

lemma hostToFilePaths_keys: "fst ` set (hostToFilePaths op) = set (hosts op)"
  by (simp add: hostToFilePaths_def keys_fold_update)

lemma hostToFilePaths_distinct: "distinct (map fst (hostToFilePaths op))"
  by (simp add: hostToFilePaths_def distinct_fold_update)

lemma prepare_never_panics: "prepare op ctx \<noteq> Panics"
  by (cases "upHosts ctx")
     (auto simp: prepare_def getInitiator_def Let_def split: prod.splits option.splits)

text \<open>
  Claim C3. With \<^verbatim>\<open>useInitiator\<close> set and no up host in the context, \<^verbatim>\<open>prepare\<close>
  sets \<^verbatim>\<open>skipExecute\<close>, logs a warning and returns nil, leaving hosts, requests and
  the context (so also the dispatcher) as they were. \<^verbatim>\<open>execute\<close> on that operation
  sends nothing whatever the hosts would answer: an operation that holds no result, as
  it leaves the constructor, still holds none and the returned error is nil.
\<close>

theorem prepare_no_up_hosts_skips_execute:
  "useInitiator op \<Longrightarrow> upHosts execContext = [] \<Longrightarrow>
     prepare op execContext
       = Returns (None, op\<lparr>skipExecute := True\<rparr>, execContext, [noUpHostsWarning])
     \<and> (ResultCollection (clusterHTTPRequest op) = [] \<longrightarrow>
          execute respond (op\<lparr>skipExecute := True\<rparr>) execContext
            = (None, op\<lparr>skipExecute := True\<rparr>, execContext, []))"
  by (simp add: prepare_def execute_def runExecute_def processResult_def)

theorem prepare_no_up_hosts_skips_execute_witness:
  "useInitiator (useSingleHost oneHost) \<and> upHosts noHostsUp = []
   \<and> ResultCollection (clusterHTTPRequest (useSingleHost oneHost)) = []
   \<and> prepare (useSingleHost oneHost) noHostsUp
       = Returns (None, (useSingleHost oneHost)\<lparr>skipExecute := True\<rparr>, noHostsUp,
                  [noUpHostsWarning])
   \<and> execute (\<lambda>h q. refused) ((useSingleHost oneHost)\<lparr>skipExecute := True\<rparr>) noHostsUp
       = (None, (useSingleHost oneHost)\<lparr>skipExecute := True\<rparr>, noHostsUp, [])"
proof -
  have a: "useInitiator (useSingleHost oneHost)" by (simp add: useSingleHost_def)
  have b: "upHosts noHostsUp = []" by (simp add: noHostsUp_def)
  have c: "ResultCollection (clusterHTTPRequest (useSingleHost oneHost)) = []"
    by (simp add: useSingleHost_def oneHost_def makeNMAGetScrutinizeTarOp_def Let_def newOp_def
          split: option.split prod.split)
  from prepare_no_up_hosts_skips_execute [OF a b, of "\<lambda>h q. refused"] a b c
  show ?thesis by simp
qed


lemma prepare_initiator:
  assumes "useInitiator op" and "upHosts ctx = h # hs"
  shows "prepare op ctx =
           (case validateHostMaps [h] (hostNodeNameMap op) of
              Some e \<Rightarrow> Returns (Some e, op\<lparr>hosts := [h]\<rparr>, ctx, [])
            | None \<Rightarrow> (case registerAndSetup (op\<lparr>hosts := [h]\<rparr>) ctx of
                         (e, op2, ctx') \<Rightarrow> Returns (e, op2, ctx', [])))"
  using assms by (simp add: prepare_def getInitiator_def Let_def)

lemma registerAndSetup_eq:
  "registerAndSetup op ctx =
     (None, snd (setupClusterHTTPRequest op (hosts op)),
      ctx\<lparr>dispatcher := (dispatcher ctx)\<lparr>downloadHosts := hosts op,
                                          downloadPaths := hostToFilePaths op\<rparr>\<rparr>)"
  by (simp add: registerAndSetup_def setupClusterHTTPRequest_def setupForDownload_def Let_def)

lemma setup_hosts: "hosts (snd (setupClusterHTTPRequest op hs)) = hosts op"
  by (simp add: setupClusterHTTPRequest_def)

lemma setup_request_keys:
  "fst ` set (RequestCollection (clusterHTTPRequest (snd (setupClusterHTTPRequest op hs))))
     = set hs \<union> fst ` set (RequestCollection (clusterHTTPRequest op))"
  by (simp add: setupClusterHTTPRequest_def keys_fold_update)

lemma hostToFilePaths_single:
  "hostToFilePaths (op\<lparr>hosts := [h]\<rparr>) = [(h, hostFilePath op h)]"
  by (simp add: hostToFilePaths_def hostFilePath_def)




lemma twoHosts_eq:
  "twoHosts = newOp ''id1'' ''b1'' [''A'', ''B''] [(''A'', ''node1''), (''B'', ''node2'')]"
  by (simp add: twoHosts_def makeNMAGetScrutinizeTarOp_def Let_def
        split: option.split prod.split)



lemma execute_sends:
  "\<not> skipExecute op \<Longrightarrow>
     requestsSent (dispatcher (fst (snd (snd (execute respond op ctx)))))
       = requestsSent (dispatcher ctx) @ map fst (RequestCollection (clusterHTTPRequest op))
     \<and> map fst (ResultCollection (clusterHTTPRequest (fst (snd (execute respond op ctx)))))
       = map fst (RequestCollection (clusterHTTPRequest op))"
  by (simp add: execute_def runExecute_def Let_def comp_def split: prod.splits)

text \<open>
  Claim C8. \<^verbatim>\<open>prepare\<close> never panics. Without an initiator it returns nil and the
  dispatcher then holds the hosts of the operation and the map built for them; with an
  initiator that validates, it returns nil, the hosts of the operation are that one
  host, and the dispatcher holds that host and its one path. The map has exactly the
  hosts of the operation as keys, each once, and maps each to the path made of the output
  path, the operation id, the host's node name in the host-to-name map and the batch
  name. \<^verbatim>\<open>prepare\<close> changes nothing else in the context, so nothing has been sent;
  it sets up a request for each of these hosts, and the hosts a dispatch then reaches
  are the hosts that have a request.
\<close>

theorem prepare_registers_file_paths:
  "prepare op execContext \<noteq> Panics
   \<and> (\<not> useInitiator op \<longrightarrow>
        (\<exists>op'. prepare op execContext
                 = Returns (None, op',
                            execContext\<lparr>dispatcher := (dispatcher execContext)
                              \<lparr>downloadHosts := hosts op,
                               downloadPaths := hostToFilePaths op\<rparr>\<rparr>, [])
             \<and> hosts op' = hosts op \<and> skipExecute op' = skipExecute op
             \<and> fst ` set (RequestCollection (clusterHTTPRequest op'))
                 = set (hosts op) \<union> fst ` set (RequestCollection (clusterHTTPRequest op))))
   \<and> (useInitiator op \<and> upHosts execContext = h # hs
        \<and> validateHostMaps [h] (hostNodeNameMap op) = None \<longrightarrow>
        (\<exists>op'. prepare op execContext
                 = Returns (None, op',
                            execContext\<lparr>dispatcher := (dispatcher execContext)
                              \<lparr>downloadHosts := [h],
                               downloadPaths :=
                                 [(h, scrutinizeRemoteOutputPath @ ''/'' @ id_str op @ ''/''
                                        @ map_index (hostNodeNameMap op) h @ ''-'' @ batch op
                                        @ ''.tgz'')]\<rparr>\<rparr>, [])
             \<and> hosts op' = [h] \<and> skipExecute op' = skipExecute op
             \<and> fst ` set (RequestCollection (clusterHTTPRequest op'))
                 = {h} \<union> fst ` set (RequestCollection (clusterHTTPRequest op))))
   \<and> fst ` set (hostToFilePaths op) = set (hosts op)
   \<and> distinct (map fst (hostToFilePaths op))
   \<and> (\<forall>host \<in> set (hosts op).
         map_of (hostToFilePaths op) host
           = Some (scrutinizeRemoteOutputPath @ ''/'' @ id_str op @ ''/''
                   @ map_index (hostNodeNameMap op) host @ ''-'' @ batch op @ ''.tgz''))
   \<and> (\<not> skipExecute op \<longrightarrow>
        requestsSent (dispatcher (fst (snd (snd (execute respond op execContext)))))
          = requestsSent (dispatcher execContext)
            @ map fst (RequestCollection (clusterHTTPRequest op))
        \<and> map fst (ResultCollection
                      (clusterHTTPRequest (fst (snd (execute respond op execContext)))))
          = map fst (RequestCollection (clusterHTTPRequest op)))"
proof (intro conjI impI)
  show "prepare op execContext \<noteq> Panics" by (rule prepare_never_panics)
next
  assume "\<not> useInitiator op"
  then have "prepare op execContext
               = Returns (None, snd (setupClusterHTTPRequest op (hosts op)),
                          execContext\<lparr>dispatcher := (dispatcher execContext)
                              \<lparr>downloadHosts := hosts op,
                               downloadPaths := hostToFilePaths op\<rparr>\<rparr>, [])"
    by (simp add: prepare_def registerAndSetup_eq)
  moreover have "skipExecute (snd (setupClusterHTTPRequest op (hosts op))) = skipExecute op"
    by (simp add: setupClusterHTTPRequest_def)
  ultimately show "\<exists>op'. prepare op execContext
                 = Returns (None, op',
                            execContext\<lparr>dispatcher := (dispatcher execContext)
                              \<lparr>downloadHosts := hosts op,
                               downloadPaths := hostToFilePaths op\<rparr>\<rparr>, [])
             \<and> hosts op' = hosts op \<and> skipExecute op' = skipExecute op
             \<and> fst ` set (RequestCollection (clusterHTTPRequest op'))
                 = set (hosts op) \<union> fst ` set (RequestCollection (clusterHTTPRequest op))"
    using setup_hosts [of op "hosts op"] setup_request_keys [of op "hosts op"] by simp
next
  assume a: "useInitiator op \<and> upHosts execContext = h # hs
        \<and> validateHostMaps [h] (hostNodeNameMap op) = None"
  let ?op1 = "op\<lparr>hosts := [h]\<rparr>"
  from a have "prepare op execContext
               = Returns (None, snd (setupClusterHTTPRequest ?op1 [h]),
                          execContext\<lparr>dispatcher := (dispatcher execContext)
                              \<lparr>downloadHosts := [h],
                               downloadPaths := [(h, hostFilePath op h)]\<rparr>\<rparr>, [])"
    by (simp add: prepare_initiator registerAndSetup_eq hostToFilePaths_single)
  moreover have "skipExecute (snd (setupClusterHTTPRequest ?op1 [h])) = skipExecute op"
    by (simp add: setupClusterHTTPRequest_def)
  ultimately show "\<exists>op'. prepare op execContext
                 = Returns (None, op',
                            execContext\<lparr>dispatcher := (dispatcher execContext)
                              \<lparr>downloadHosts := [h],
                               downloadPaths :=
                                 [(h, scrutinizeRemoteOutputPath @ ''/'' @ id_str op @ ''/''
                                        @ map_index (hostNodeNameMap op) h @ ''-'' @ batch op
                                        @ ''.tgz'')]\<rparr>\<rparr>, [])
             \<and> hosts op' = [h] \<and> skipExecute op' = skipExecute op
             \<and> fst ` set (RequestCollection (clusterHTTPRequest op'))
                 = {h} \<union> fst ` set (RequestCollection (clusterHTTPRequest op))"
    using setup_hosts [of ?op1 "[h]"] setup_request_keys [of ?op1 "[h]"]
    by (simp add: hostFilePath_def)
next
  show "fst ` set (hostToFilePaths op) = set (hosts op)" by (rule hostToFilePaths_keys)
next
  show "distinct (map fst (hostToFilePaths op))" by (rule hostToFilePaths_distinct)
next
  show "\<forall>host \<in> set (hosts op).
         map_of (hostToFilePaths op) host
           = Some (scrutinizeRemoteOutputPath @ ''/'' @ id_str op @ ''/''
                   @ map_index (hostNodeNameMap op) host @ ''-'' @ batch op @ ''.tgz'')"
    by (simp add: hostToFilePaths_lookup hostFilePath_def)
next
  assume s: "\<not> skipExecute op"
  from execute_sends [OF s, of respond execContext]
  show "requestsSent (dispatcher (fst (snd (snd (execute respond op execContext)))))
          = requestsSent (dispatcher execContext)
            @ map fst (RequestCollection (clusterHTTPRequest op))"
    and "map fst (ResultCollection
                      (clusterHTTPRequest (fst (snd (execute respond op execContext)))))
          = map fst (RequestCollection (clusterHTTPRequest op))"
    by simp_all
qed


theorem prepare_registers_file_paths_witness:
  "\<not> useInitiator twoHosts
   \<and> (\<exists>op'. prepare twoHosts hostsUp
               = Returns (None, op',
                          hostsUp\<lparr>dispatcher := (dispatcher hostsUp)
                            \<lparr>downloadHosts := [''A'', ''B''],
                             downloadPaths :=
                               [(''A'', ''/tmp/scrutinize/remote/id1/node1-b1.tgz''),
                                (''B'', ''/tmp/scrutinize/remote/id1/node2-b1.tgz'')]\<rparr>\<rparr>, [])
           \<and> hosts op' = [''A'', ''B'']
           \<and> fst ` set (RequestCollection (clusterHTTPRequest op')) = {''A'', ''B''})
   \<and> useInitiator (useSingleHost twoHosts) \<and> upHosts hostsUp = [''A'', ''B'']
   \<and> validateHostMaps [''A''] (hostNodeNameMap (useSingleHost twoHosts)) = None
   \<and> (\<exists>op'. prepare (useSingleHost twoHosts) hostsUp
               = Returns (None, op',
                          hostsUp\<lparr>dispatcher := (dispatcher hostsUp)
                            \<lparr>downloadHosts := [''A''],
                             downloadPaths :=
                               [(''A'', ''/tmp/scrutinize/remote/id1/node1-b1.tgz'')]\<rparr>\<rparr>, [])
           \<and> hosts op' = [''A'']
           \<and> fst ` set (RequestCollection (clusterHTTPRequest op')) = {''A''})
   \<and> \<not> skipExecute threeRequests
   \<and> requestsSent (dispatcher (fst (snd (snd (execute answers threeRequests hostsUp)))))
       = [''A'', ''B'', ''C'']"
proof -
  have ni: "\<not> useInitiator twoHosts" by (simp add: twoHosts_eq newOp_def)
  have ini: "useInitiator (useSingleHost twoHosts)" by (simp add: useSingleHost_def)
  have up: "upHosts hostsUp = [''A'', ''B'']" by (simp add: hostsUp_def)
  have v: "validateHostMaps [''A''] (hostNodeNameMap (useSingleHost twoHosts)) = None"
    by (simp add: useSingleHost_def twoHosts_eq newOp_def validateHostMaps_def map_index_def)
  have f2: "hosts twoHosts = [''A'', ''B'']"
    "fst ` set (RequestCollection (clusterHTTPRequest twoHosts)) = {}"
    "hostToFilePaths twoHosts = [(''A'', ''/tmp/scrutinize/remote/id1/node1-b1.tgz''),
                                 (''B'', ''/tmp/scrutinize/remote/id1/node2-b1.tgz'')]"
    by (simp_all add: twoHosts_eq newOp_def hostToFilePaths_def hostFilePath_def
          scrutinizeRemoteOutputPath_def map_index_def)
  have f1: "fst ` set (RequestCollection (clusterHTTPRequest (useSingleHost twoHosts))) = {}"
    "scrutinizeRemoteOutputPath @ ''/'' @ id_str (useSingleHost twoHosts) @ ''/''
       @ map_index (hostNodeNameMap (useSingleHost twoHosts)) ''A'' @ ''-''
       @ batch (useSingleHost twoHosts) @ ''.tgz''
     = ''/tmp/scrutinize/remote/id1/node1-b1.tgz''"
    by (simp_all add: useSingleHost_def twoHosts_eq newOp_def scrutinizeRemoteOutputPath_def
          map_index_def)
  have 1: "\<exists>op'. prepare twoHosts hostsUp
               = Returns (None, op',
                          hostsUp\<lparr>dispatcher := (dispatcher hostsUp)
                            \<lparr>downloadHosts := [''A'', ''B''],
                             downloadPaths :=
                               [(''A'', ''/tmp/scrutinize/remote/id1/node1-b1.tgz''),
                                (''B'', ''/tmp/scrutinize/remote/id1/node2-b1.tgz'')]\<rparr>\<rparr>, [])
           \<and> hosts op' = [''A'', ''B'']
           \<and> fst ` set (RequestCollection (clusterHTTPRequest op')) = {''A'', ''B''}"
    using prepare_registers_file_paths [of twoHosts hostsUp "''A''" "[''B'']" answers,
            THEN conjunct2, THEN conjunct1] ni
    unfolding f2 by auto
  have 2: "\<exists>op'. prepare (useSingleHost twoHosts) hostsUp
               = Returns (None, op',
                          hostsUp\<lparr>dispatcher := (dispatcher hostsUp)
                            \<lparr>downloadHosts := [''A''],
                             downloadPaths :=
                               [(''A'', ''/tmp/scrutinize/remote/id1/node1-b1.tgz'')]\<rparr>\<rparr>, [])
           \<and> hosts op' = [''A'']
           \<and> fst ` set (RequestCollection (clusterHTTPRequest op')) = {''A''}"
    using prepare_registers_file_paths [of "useSingleHost twoHosts" hostsUp "''A''" "[''B'']"
            answers, THEN conjunct2, THEN conjunct2, THEN conjunct1] ini up v
    unfolding f1 by auto
  have ns: "\<not> skipExecute threeRequests"
    by (simp add: threeRequests_def setupClusterHTTPRequest_def newOp_def)
  have rq: "map fst (RequestCollection (clusterHTTPRequest threeRequests)) = [''A'', ''B'', ''C'']"
    by (simp add: threeRequests_def setupClusterHTTPRequest_def newOp_def)
  have r0: "requestsSent (dispatcher hostsUp) = []" by (simp add: hostsUp_def)
  have 3: "requestsSent (dispatcher (fst (snd (snd (execute answers threeRequests hostsUp)))))
       = [''A'', ''B'', ''C'']"
    using prepare_registers_file_paths [of threeRequests hostsUp "''A''" "[''B'']" answers,
            THEN conjunct2, THEN conjunct2, THEN conjunct2, THEN conjunct2, THEN conjunct2,
            THEN conjunct2] ns
    unfolding rq r0 by simp
  from ni 1 ini up v 2 ns 3 show ?thesis by blast
qed

section \<open>The constructor and the output directory\<close>

text \<open>
  Claim C7, as amended. Once the host maps validate, the constructor first creates the
  output directory \<^verbatim>\<open>/tmp/scrutinize/remote/{id}/\<close> with \<^verbatim>\<open>os.MkdirAll\<close> and mode
  0700, and then checks it in the state the creation left: it returns nil exactly when
  the creation succeeded and the directory is then reported as existing and writable,
  and an error otherwise. The operation it returns holds no request and no result:
  nothing has been dispatched.
\<close>

theorem makeNMAGetScrutinizeTarOp_creates_then_checks:
  "validateHostMaps H M = None \<Longrightarrow>
   makeNMAGetScrutinizeTarOp os ident batchName H M fs = (op, e, fs') \<Longrightarrow>
     fs' = snd (MkdirAll os (scrutinizeRemoteOutputPath @ ''/'' @ ident @ ''/'')
                  OwnerReadWriteExecute fs)
     \<and> (e = None \<longleftrightarrow>
          fst (MkdirAll os (scrutinizeRemoteOutputPath @ ''/'' @ ident @ ''/'')
                 OwnerReadWriteExecute fs) = None
          \<and> CanWriteAccessDir os (scrutinizeRemoteOutputPath @ ''/'' @ ident @ ''/'') fs'
              = FileExist)
     \<and> RequestCollection (clusterHTTPRequest op) = []
     \<and> ResultCollection (clusterHTTPRequest op) = []"
  by (cases "MkdirAll os (scrutinizeRemoteOutputPath @ ''/'' @ ident @ ''/'')
                  OwnerReadWriteExecute fs";
      cases "CanWriteAccessDir os (scrutinizeRemoteOutputPath @ ''/'' @ ident @ ''/'')
               (snd (MkdirAll os (scrutinizeRemoteOutputPath @ ''/'' @ ident @ ''/'')
                  OwnerReadWriteExecute fs))")
     (auto simp: makeNMAGetScrutinizeTarOp_def createOutputDir_def outputDir_def newOp_def Let_def
        split: option.splits)

text \<open>
  Claim C7 as stated fails: on a file system in which the output directory does not
  exist and can be created, the constructor does not fail. It creates the directory and
  returns nil.
\<close>

theorem makeNMAGetScrutinizeTarOp_missing_dir_counterexample:
  "CanWriteAccessDir dirs ''/tmp/scrutinize/remote/id1/'' [] = FileNotExist
   \<and> makeNMAGetScrutinizeTarOp dirs ''id1'' ''b1'' [''A''] [(''A'', ''node1'')] []
       = (newOp ''id1'' ''b1'' [''A''] [(''A'', ''node1'')], None,
          [(''/tmp/scrutinize/remote/id1/'', True)])"
  by (simp add: makeNMAGetScrutinizeTarOp_def createOutputDir_def outputDir_def newOp_def Let_def
        validateHostMaps_def map_index_def dirs_def dirs_MkdirAll_def dirs_CanWriteAccessDir_def
        scrutinizeRemoteOutputPath_def OwnerReadWriteExecute_def)


theorem makeNMAGetScrutinizeTarOp_creates_then_checks_witness:
  "validateHostMaps [''A''] [(''A'', ''node1'')] = None
   \<and> (\<exists>op fs'. makeNMAGetScrutinizeTarOp dirs ''id1'' ''b1'' [''A''] [(''A'', ''node1'')] []
                   = (op, None, fs')
          \<and> CanWriteAccessDir dirs ''/tmp/scrutinize/remote/id1/'' fs' = FileExist)
   \<and> (\<exists>op e fs'. makeNMAGetScrutinizeTarOp dirs ''id1'' ''b1'' [''A''] [(''A'', ''node1'')]
                     [(''/tmp/scrutinize/remote/id1/'', False)] = (op, Some e, fs')
          \<and> CanWriteAccessDir dirs ''/tmp/scrutinize/remote/id1/'' fs' = NoWritePerm)"
proof -
  have v: "validateHostMaps [''A''] [(''A'', ''node1'')] = None"
    by (simp add: validateHostMaps_def map_index_def)
  have mk: "MkdirAll dirs ''/tmp/scrutinize/remote/id1/''
              OwnerReadWriteExecute [] = (None, [(''/tmp/scrutinize/remote/id1/'', True)])"
    by (simp add: dirs_def dirs_MkdirAll_def scrutinizeRemoteOutputPath_def
          OwnerReadWriteExecute_def)
  have mk': "MkdirAll dirs ''/tmp/scrutinize/remote/id1/''
              OwnerReadWriteExecute [(''/tmp/scrutinize/remote/id1/'', False)]
               = (None, [(''/tmp/scrutinize/remote/id1/'', False)])"
    by (simp add: dirs_def dirs_MkdirAll_def scrutinizeRemoteOutputPath_def)
  have p: "scrutinizeRemoteOutputPath @ ''/'' @ ''id1'' @ ''/'' = ''/tmp/scrutinize/remote/id1/''"
    by (simp add: scrutinizeRemoteOutputPath_def)
  obtain op e fs' where m: "makeNMAGetScrutinizeTarOp dirs ''id1'' ''b1'' [''A'']
                              [(''A'', ''node1'')] [] = (op, e, fs')"
    by (cases "makeNMAGetScrutinizeTarOp dirs ''id1'' ''b1'' [''A''] [(''A'', ''node1'')] []") auto
  from makeNMAGetScrutinizeTarOp_creates_then_checks [OF v m]
  have 1: "e = None \<and> CanWriteAccessDir dirs ''/tmp/scrutinize/remote/id1/'' fs' = FileExist"
    unfolding p mk by (simp add: dirs_def dirs_CanWriteAccessDir_def)
  obtain op2 e2 fs2 where m2: "makeNMAGetScrutinizeTarOp dirs ''id1'' ''b1'' [''A'']
                              [(''A'', ''node1'')] [(''/tmp/scrutinize/remote/id1/'', False)]
                                = (op2, e2, fs2)"
    by (cases "makeNMAGetScrutinizeTarOp dirs ''id1'' ''b1'' [''A''] [(''A'', ''node1'')]
                 [(''/tmp/scrutinize/remote/id1/'', False)]") auto
  from makeNMAGetScrutinizeTarOp_creates_then_checks [OF v m2]
  have 2: "e2 \<noteq> None \<and> CanWriteAccessDir dirs ''/tmp/scrutinize/remote/id1/'' fs2 = NoWritePerm"
    unfolding p mk' by (simp add: dirs_def dirs_CanWriteAccessDir_def)
  from v m 1 m2 2 show ?thesis by auto
qed


section \<open>The replication command\<close>

lemma setBaseOptions_other:
  "TargetDB (setBaseOptions b options) = TargetDB options"
  "Async (setBaseOptions b options) = Async options"
  "SandboxName (setBaseOptions b options) = SandboxName options"
  by (cases options; simp add: setBaseOptions_def)+

lemma resolveUserNames_keeps:
  "resolveUserNames env options = Inr (options1, tup) \<Longrightarrow>
     Async options1 = Async options \<and> tup = (Password (TargetDB options) \<noteq> None)
     \<and> Password (TargetDB options1) = Password (TargetDB options)
     \<and> Hosts (TargetDB options1) = Hosts (TargetDB options)
     \<and> SandboxName options1 = SandboxName options"
  by (auto simp: resolveUserNames_def setBaseOptions_other Let_def
        split: sum.splits if_splits)

lemma construct_Inr: "construct env cop = Inr x \<Longrightarrow> x = cop"
  by (simp add: construct_def split: option.splits)

lemma asyncInstructions_Inr:
  "asyncInstructions env options tup ith vdb slot = Inr instructions \<Longrightarrow>
     instructions =
       [NMAHealthOp (Hosts options @ Hosts (TargetDB options)),
        NMAReplicationStatusOp (Hosts (TargetDB options)) tup (statusRequestData options)
          transactionIDs None,
        NMAReplicationStartOp (Hosts options) (usePassword options) tup
          (startRequestData options ith) vdb,
        NMAPollReplicationStatusOp (TargetDB options) tup (SandboxName options) vdb
          transactionIDs slot]"
  by (auto simp: asyncInstructions_def Let_def split: sum.splits dest!: construct_Inr)

lemma syncInstructions_Inr:
  "syncInstructions env options tup ith vdb = Inr instructions \<Longrightarrow>
     instructions =
       [HTTPSDisallowMultipleNamespacesOp (Hosts options) (usePassword options)
          (UserName options) (Password options) (SandboxName options) vdb,
        HTTPSStartReplicationOp (DBName options) (Hosts options) (usePassword options)
          (UserName options) (Password options) tup (TargetDB options) ith
          (SourceTLSConfig options) (SandboxName options) vdb]"
  by (auto simp: syncInstructions_def Let_def split: sum.splits dest!: construct_Inr)

lemma produce_Inr:
  assumes "produceDBReplicationInstructions env options vdb slot = Returns (Inr (instructions, options1))"
  shows "\<exists>ith. resolveUserNames env options = Inr (options1, Password (TargetDB options) \<noteq> None)
           \<and> getInitiator (Hosts (TargetDB options1)) = Some ith
           \<and> (if Async options
               then asyncInstructions env options1 (Password (TargetDB options) \<noteq> None) ith vdb slot
               else syncInstructions env options1 (Password (TargetDB options) \<noteq> None) ith vdb)
              = Inr instructions"
proof -
  from assms obtain o1 tup where r: "resolveUserNames env options = Inr (o1, tup)"
    by (auto simp: produceDBReplicationInstructions_def split: sum.splits)
  note k = resolveUserNames_keeps [OF r]
  from assms r obtain ith where g: "getInitiator (Hosts (TargetDB o1)) = Some ith"
    by (auto simp: produceDBReplicationInstructions_def split: option.splits)
  from assms r g have
    "(if Async o1 then asyncInstructions env o1 tup ith vdb slot
      else syncInstructions env o1 tup ith vdb) = Inr instructions \<and> options1 = o1"
    by (auto simp: produceDBReplicationInstructions_def split: sum.splits if_splits)
  with r g k show ?thesis by auto
qed

text \<open>
  Claim C5. For an asynchronous command, a list of instructions that
  \<^verbatim>\<open>produceDBReplicationInstructions\<close> returns without error is, in this order: the
  health check; the status operation on the target hosts, which asks for transaction
  identifiers only, excludes none, names transaction 0 and stores through the shared
  pointer; the operation that starts replication; and the polling operation, which is
  given the same shared pointer and the output pointer.
\<close>

theorem produceDBReplicationInstructions_async_order:
  "Async options \<Longrightarrow>
   produceDBReplicationInstructions env options vdb slot = Returns (Inr (instructions, options1)) \<Longrightarrow>
     (\<exists>initiatorTargetHost targetUsePassword.
        instructions =
          [NMAHealthOp (Hosts options1 @ Hosts (TargetDB options1)),
           NMAReplicationStatusOp (Hosts (TargetDB options1)) targetUsePassword
             (statusRequestData options1) transactionIDs None,
           NMAReplicationStartOp (Hosts options1) (usePassword options1) targetUsePassword
             (startRequestData options1 initiatorTargetHost) vdb,
           NMAPollReplicationStatusOp (TargetDB options1) targetUsePassword
             (SandboxName options1) vdb transactionIDs slot])
     \<and> GetTransactionIDsOnly (statusRequestData options1)
     \<and> ExcludedTransactionIDs (statusRequestData options1) = []
     \<and> TransactionID (statusRequestData options1) = 0"
proof -
  assume a: "Async options"
    and p: "produceDBReplicationInstructions env options vdb slot
              = Returns (Inr (instructions, options1))"
  from produce_Inr [OF p] a obtain ith where
    "asyncInstructions env options1 (Password (TargetDB options) \<noteq> None) ith vdb slot
       = Inr instructions" by auto
  from asyncInstructions_Inr [OF this]
  show ?thesis by (auto simp: statusRequestData_def)
qed


theorem produceDBReplicationInstructions_async_order_witness:
  "Async asyncOptions
   \<and> (\<exists>status start poll options1.
        produceDBReplicationInstructions permissive asyncOptions () asyncReplicationTransactionID
          = Returns (Inr ([NMAHealthOp [''10.0.0.1'', ''10.0.1.1'', ''10.0.1.2''],
                           status, start, poll], options1))
        \<and> pointersOf status = [transactionIDs]
        \<and> pointersOf poll = [transactionIDs, asyncReplicationTransactionID])"
proof -
  have a: "Async asyncOptions" by (simp add: asyncOptions_def)
  have "\<exists>ins o1. produceDBReplicationInstructions permissive asyncOptions ()
                   asyncReplicationTransactionID = Returns (Inr (ins, o1))
                 \<and> Hosts o1 = [''10.0.0.1''] \<and> Hosts (TargetDB o1) = [''10.0.1.1'', ''10.0.1.2'']"
    by (simp add: produceDBReplicationInstructions_def resolveUserNames_def permissive_def
          asyncOptions_def targetDatabase_def baseOptions_def setBaseOptions_def getInitiator_def
          asyncInstructions_def construct_def Let_def)
  then obtain ins o1 where p: "produceDBReplicationInstructions permissive asyncOptions ()
                   asyncReplicationTransactionID = Returns (Inr (ins, o1))"
    and h: "Hosts o1 = [''10.0.0.1'']" "Hosts (TargetDB o1) = [''10.0.1.1'', ''10.0.1.2'']"
    by blast
  from produceDBReplicationInstructions_async_order [OF a p] h p
  show ?thesis using a by auto
qed

lemma slotAfterRun_async:
  "asyncInstructions env options tup ith vdb asyncReplicationTransactionID = Inr instructions \<Longrightarrow>
     slotAfterRun instructions stored = (case stored of None \<Rightarrow> 0 | Some v \<Rightarrow> v)"
  by (drule asyncInstructions_Inr) (simp add: slotAfterRun_def)

lemma slotAfterRun_sync:
  "syncInstructions env options tup ith vdb = Inr instructions \<Longrightarrow>
     slotAfterRun instructions stored = 0"
  by (drule syncInstructions_Inr) (simp add: slotAfterRun_def)

lemma slotAfterRun_produce:
  assumes "produceDBReplicationInstructions env options vdb asyncReplicationTransactionID
             = Returns (Inr (instructions, options1))"
  shows "slotAfterRun instructions stored
           = (if Async options then (case stored of None \<Rightarrow> 0 | Some v \<Rightarrow> v) else 0)"
proof (cases "Async options")
  case True
  with produce_Inr [OF assms] obtain ith tup where
    "asyncInstructions env options1 tup ith vdb asyncReplicationTransactionID = Inr instructions"
    by auto
  from slotAfterRun_async [OF this] True show ?thesis by simp
next
  case False
  with produce_Inr [OF assms] obtain ith tup where
    "syncInstructions env options1 tup ith vdb = Inr instructions"
    by auto
  from slotAfterRun_sync [OF this] False show ?thesis by simp
qed

lemma analyzeOptions_keeps:
  "analyzeOptions env options = Inr options1 \<Longrightarrow>
     Async options1 = Async options \<and> IsEon options1 = IsEon options"
  by (cases options) (auto simp: analyzeOptions_def split: if_splits sum.splits)

lemma validateAnalyzeOptions_keeps:
  "validateAnalyzeOptions env options = Inr options1 \<Longrightarrow>
     Async options1 = Async options \<and> validateParseOptions env options = None"
  by (auto simp: validateAnalyzeOptions_def split: option.splits dest: analyzeOptions_keeps)

text \<open>
  Claim C6. \<^verbatim>\<open>VReplicateDatabase\<close> returns 0 and the error when validation and
  analysis of the options fail, when the lookup of the running database fails, when
  the production of instructions fails (the error wrapped), and when the engine's run
  fails. When the run succeeds it returns nil and the value of the output cell: what the
  pipeline stored through the output pointer in an asynchronous command, 0 if it stored
  nothing, and 0 in a synchronous command, in which no operation holds the pointer.
  Whenever it returns a non-nil error the value is 0.
\<close>

theorem VReplicateDatabase_returns:
  "(\<forall>e. validateAnalyzeOptions env options = Inl e \<longrightarrow>
        VReplicateDatabase env options = Returns (0, Some e))
   \<and> (\<forall>options1. validateAnalyzeOptions env options = Inr options1 \<longrightarrow>
        (\<forall>e. getVDBFromRunningDBIncludeSandbox env (baseOptions options1) (SandboxName options1)
               = Inl e \<longrightarrow>
             VReplicateDatabase env options = Returns (0, Some e))
      \<and> (\<forall>vdb. getVDBFromRunningDBIncludeSandbox env (baseOptions options1) (SandboxName options1)
                 = Inr vdb \<longrightarrow>
           (\<forall>e. produceDBReplicationInstructions env options1 vdb asyncReplicationTransactionID
                  = Returns (Inl e) \<longrightarrow>
                VReplicateDatabase env options
                  = Returns (0, Some (fmt_Errorf_w ''fail to produce instructions, '' (Some e))))
         \<and> (\<forall>instructions options2.
                produceDBReplicationInstructions env options1 vdb asyncReplicationTransactionID
                  = Returns (Inr (instructions, options2)) \<longrightarrow>
              (\<forall>runError stored.
                  run env instructions (baseOptions options2) = (Some runError, stored) \<longrightarrow>
                    (\<exists>e. VReplicateDatabase env options = Returns (0, Some e)))
            \<and> (\<forall>stored.
                  run env instructions (baseOptions options2) = (None, stored) \<longrightarrow>
                    VReplicateDatabase env options
                      = Returns (if Async options
                                 then (case stored of None \<Rightarrow> 0 | Some v \<Rightarrow> v) else 0, None)))))
   \<and> (\<forall>v e. VReplicateDatabase env options = Returns (v, Some e) \<longrightarrow> v = 0)"
proof (intro conjI allI impI)
  fix e assume "validateAnalyzeOptions env options = Inl e"
  then show "VReplicateDatabase env options = Returns (0, Some e)"
    by (simp add: VReplicateDatabase_def)
next
  fix options1 e
  assume "validateAnalyzeOptions env options = Inr options1"
    and "getVDBFromRunningDBIncludeSandbox env (baseOptions options1) (SandboxName options1) = Inl e"
  then show "VReplicateDatabase env options = Returns (0, Some e)"
    by (simp add: VReplicateDatabase_def)
next
  fix options1 vdb e
  assume "validateAnalyzeOptions env options = Inr options1"
    and "getVDBFromRunningDBIncludeSandbox env (baseOptions options1) (SandboxName options1) = Inr vdb"
    and "produceDBReplicationInstructions env options1 vdb asyncReplicationTransactionID
           = Returns (Inl e)"
  then show "VReplicateDatabase env options
               = Returns (0, Some (fmt_Errorf_w ''fail to produce instructions, '' (Some e)))"
    by (simp add: VReplicateDatabase_def)
next
  fix options1 vdb instructions options2 runError stored
  assume "validateAnalyzeOptions env options = Inr options1"
    and "getVDBFromRunningDBIncludeSandbox env (baseOptions options1) (SandboxName options1) = Inr vdb"
    and "produceDBReplicationInstructions env options1 vdb asyncReplicationTransactionID
           = Returns (Inr (instructions, options2))"
    and "run env instructions (baseOptions options2) = (Some runError, stored)"
  then show "\<exists>e. VReplicateDatabase env options = Returns (0, Some e)"
    by (simp add: VReplicateDatabase_def Let_def)
next
  fix options1 vdb instructions options2 stored
  assume v: "validateAnalyzeOptions env options = Inr options1"
    and g: "getVDBFromRunningDBIncludeSandbox env (baseOptions options1) (SandboxName options1) = Inr vdb"
    and p: "produceDBReplicationInstructions env options1 vdb asyncReplicationTransactionID
           = Returns (Inr (instructions, options2))"
    and r: "run env instructions (baseOptions options2) = (None, stored)"
  from validateAnalyzeOptions_keeps [OF v] have a: "Async options1 = Async options" by simp
  from v g p r show "VReplicateDatabase env options
                      = Returns (if Async options
                                 then (case stored of None \<Rightarrow> 0 | Some v \<Rightarrow> v) else 0, None)"
    by (simp add: VReplicateDatabase_def slotAfterRun_produce [OF p] a)
next
  fix v e assume "VReplicateDatabase env options = Returns (v, Some e)"
  then show "v = 0"
    by (auto simp: VReplicateDatabase_def Let_def
          split: sum.splits outcome.splits prod.splits option.splits)
qed


lemma permissive_validates:
  "IsEon options \<Longrightarrow> Hosts (TargetDB options) \<noteq> [] \<Longrightarrow> DBName (TargetDB options) \<noteq> [] \<Longrightarrow>
   UserName (TargetDB options) = UserName options \<Longrightarrow>
     validateParseOptions permissive options = None"
  by (simp add: validateParseOptions_def validateRequiredOptions_def validateEonOptions_def
        validateExtraOptions_def validateFineGrainedReplicationOptions_def permissive_def)

theorem VReplicateDatabase_returns_witness:
  "VReplicateDatabase permissive asyncOptions = Returns (42, None)
   \<and> VReplicateDatabase permissive syncOptions = Returns (0, None)
   \<and> validateAnalyzeOptions permissive enterpriseOptions
       = Inl (ErrorString ''replication is only supported in Eon mode'')
   \<and> VReplicateDatabase permissive enterpriseOptions
       = Returns (0, Some (ErrorString ''replication is only supported in Eon mode''))
   \<and> (\<exists>e. VReplicateDatabase engineFails asyncOptions = Returns (0, Some e))"
proof -
  have "validateParseOptions permissive asyncOptions = None"
    by (rule permissive_validates) (simp_all add: asyncOptions_def targetDatabase_def)
  moreover have "analyzeOptions permissive asyncOptions = Inr asyncOptions"
    by (simp add: analyzeOptions_def permissive_def asyncOptions_def targetDatabase_def)
  ultimately have va: "validateAnalyzeOptions permissive asyncOptions = Inr asyncOptions"
    by (simp add: validateAnalyzeOptions_def)
  have "validateParseOptions permissive syncOptions = None"
    by (rule permissive_validates)
       (simp_all add: syncOptions_def asyncOptions_def targetDatabase_def)
  moreover have "analyzeOptions permissive syncOptions = Inr syncOptions"
    by (simp add: analyzeOptions_def permissive_def syncOptions_def asyncOptions_def
          targetDatabase_def)
  ultimately have vs: "validateAnalyzeOptions permissive syncOptions = Inr syncOptions"
    by (simp add: validateAnalyzeOptions_def)
  have g: "getVDBFromRunningDBIncludeSandbox permissive b s = Inr ()" for b s
    by (simp add: permissive_def)
  have r: "run permissive ins b = (None, Some 42)" for ins b
    by (simp add: permissive_def)
  have "\<exists>ins o1. produceDBReplicationInstructions permissive asyncOptions ()
                   asyncReplicationTransactionID = Returns (Inr (ins, o1))"
    by (simp add: produceDBReplicationInstructions_def resolveUserNames_def permissive_def
          asyncOptions_def targetDatabase_def baseOptions_def setBaseOptions_def getInitiator_def
          asyncInstructions_def construct_def Let_def)
  then obtain ins o1 where pa: "produceDBReplicationInstructions permissive asyncOptions ()
                   asyncReplicationTransactionID = Returns (Inr (ins, o1))" by blast
  have "\<exists>ins o1. produceDBReplicationInstructions permissive syncOptions ()
                   asyncReplicationTransactionID = Returns (Inr (ins, o1))"
    by (simp add: produceDBReplicationInstructions_def resolveUserNames_def permissive_def
          syncOptions_def asyncOptions_def targetDatabase_def baseOptions_def setBaseOptions_def
          getInitiator_def syncInstructions_def construct_def Let_def)
  then obtain ins' o1' where ps: "produceDBReplicationInstructions permissive syncOptions ()
                   asyncReplicationTransactionID = Returns (Inr (ins', o1'))" by blast
  have a: "Async asyncOptions" "\<not> Async syncOptions"
    by (simp_all add: syncOptions_def asyncOptions_def)
  have 1: "VReplicateDatabase permissive asyncOptions = Returns (42, None)"
    using VReplicateDatabase_returns [of permissive asyncOptions, THEN conjunct2, THEN conjunct1]
          va g pa r a
    by fastforce
  have 2: "VReplicateDatabase permissive syncOptions = Returns (0, None)"
    using VReplicateDatabase_returns [of permissive syncOptions, THEN conjunct2, THEN conjunct1]
          vs g ps r a
    by fastforce
  have ve: "validateAnalyzeOptions permissive enterpriseOptions
       = Inl (ErrorString ''replication is only supported in Eon mode'')"
    by (simp add: validateAnalyzeOptions_def validateParseOptions_def validateRequiredOptions_def
          validateEonOptions_def permissive_def enterpriseOptions_def asyncOptions_def)
  have 3: "VReplicateDatabase permissive enterpriseOptions
       = Returns (0, Some (ErrorString ''replication is only supported in Eon mode''))"
    using VReplicateDatabase_returns [of permissive enterpriseOptions, THEN conjunct1] ve
    by simp
  have vf: "validateAnalyzeOptions engineFails asyncOptions = Inr asyncOptions"
    by (simp add: validateAnalyzeOptions_def validateParseOptions_def validateRequiredOptions_def
          validateEonOptions_def validateExtraOptions_def analyzeOptions_def
          validateFineGrainedReplicationOptions_def engineFails_def permissive_def
          asyncOptions_def targetDatabase_def baseOptions_def)
  have gf: "getVDBFromRunningDBIncludeSandbox engineFails b s = Inr ()" for b s
    by (simp add: engineFails_def permissive_def)
  have "\<exists>ins o1. produceDBReplicationInstructions engineFails asyncOptions ()
                   asyncReplicationTransactionID = Returns (Inr (ins, o1))"
    by (simp add: produceDBReplicationInstructions_def resolveUserNames_def engineFails_def
          permissive_def asyncOptions_def targetDatabase_def baseOptions_def setBaseOptions_def
          getInitiator_def asyncInstructions_def construct_def Let_def)
  then obtain insf o1f where pf: "produceDBReplicationInstructions engineFails asyncOptions ()
                   asyncReplicationTransactionID = Returns (Inr (insf, o1f))" by blast
  have rf: "run engineFails insf (baseOptions o1f)
              = (Some (ErrorString ''source: EnableConnectCredentialForwarding is false''), None)"
    by (simp add: engineFails_def)
  have 4: "\<exists>e. VReplicateDatabase engineFails asyncOptions = Returns (0, Some e)"
    using VReplicateDatabase_returns [of engineFails asyncOptions, THEN conjunct2, THEN conjunct1]
          vf gf pf rf
    by fastforce
  from 1 2 ve 3 4 show ?thesis by simp
qed

lemma firstError_simps:
  "firstError [] = None"
  "firstError (None # es) = firstError es"
  "firstError (Some e # es) = Some e"
  by (simp_all add: firstError_def List.map_filter_simps)

text \<open>
  Claim C10, as amended. \<^verbatim>\<open>validateParseOptions\<close> returns the first error of the five
  batches in the order required, Eon, auth, extra, fine-grained. For options that are not
  in Eon mode it always fails: with the error of the required batch if that batch
  fails, and otherwise with the error that replication is only supported in Eon mode.
  \<^verbatim>\<open>VReplicateDatabase\<close> then returns 0 and that error, whatever the rest of the
  environment (the database lookup, the constructors, the engine) would do.
\<close>

theorem validateParseOptions_order_and_eon:
  "validateParseOptions env options
     = firstError [validateRequiredOptions env options, validateEonOptions options,
                   validateAuthOptions env (baseOptions options),
                   validateExtraOptions env options,
                   validateFineGrainedReplicationOptions env options]
   \<and> (\<not> IsEon options \<longrightarrow>
        validateParseOptions env options
          = (case validateRequiredOptions env options of
               Some e \<Rightarrow> Some e
             | None \<Rightarrow> Some (ErrorString ''replication is only supported in Eon mode''))
        \<and> (\<exists>e. validateParseOptions env options = Some e
               \<and> VReplicateDatabase env options = Returns (0, Some e)))
   \<and> (\<not> IsEon options \<and> validateBaseOptions env' = validateBaseOptions env \<longrightarrow>
        VReplicateDatabase env' options = VReplicateDatabase env options)"
proof (intro conjI impI)
  show "validateParseOptions env options
     = firstError [validateRequiredOptions env options, validateEonOptions options,
                   validateAuthOptions env (baseOptions options),
                   validateExtraOptions env options,
                   validateFineGrainedReplicationOptions env options]"
    by (simp add: validateParseOptions_def firstError_simps split: option.splits)
next
  assume n: "\<not> IsEon options"
  then show eq: "validateParseOptions env options
          = (case validateRequiredOptions env options of
               Some e \<Rightarrow> Some e
             | None \<Rightarrow> Some (ErrorString ''replication is only supported in Eon mode''))"
    by (simp add: validateParseOptions_def validateEonOptions_def split: option.splits)
  then obtain e where e: "validateParseOptions env options = Some e"
    by (cases "validateRequiredOptions env options") auto
  then have "VReplicateDatabase env options = Returns (0, Some e)"
    by (simp add: VReplicateDatabase_def validateAnalyzeOptions_def)
  with e show "\<exists>e. validateParseOptions env options = Some e
               \<and> VReplicateDatabase env options = Returns (0, Some e)" by blast
next
  assume a: "\<not> IsEon options \<and> validateBaseOptions env' = validateBaseOptions env"
  then have "validateParseOptions env' options = validateParseOptions env options"
    by (simp add: validateParseOptions_def validateEonOptions_def validateRequiredOptions_def
          split: option.splits)
  moreover from a obtain e where "validateParseOptions env options = Some e"
    by (cases "validateRequiredOptions env options")
       (auto simp: validateParseOptions_def validateEonOptions_def)
  ultimately show "VReplicateDatabase env' options = VReplicateDatabase env options"
    by (simp add: VReplicateDatabase_def validateAnalyzeOptions_def)
qed

text \<open>
  Claim C10 as stated fails: for options that are not in Eon mode and whose database
  name is missing, validation fails in the required batch, and the error is not the
  Eon-mode error.
\<close>

theorem validateParseOptions_required_first_counterexample:
  "\<not> IsEon unnamedEnterpriseOptions
   \<and> validateParseOptions nameChecking unnamedEnterpriseOptions
       = Some (ErrorString ''must specify a database name'')
   \<and> \<not> sublist ''only supported in Eon mode''
         (Error_msg (the (validateParseOptions nameChecking unnamedEnterpriseOptions)))"
proof -
  have 1: "\<not> IsEon unnamedEnterpriseOptions"
    by (simp add: unnamedEnterpriseOptions_def asyncOptions_def)
  have 2: "validateParseOptions nameChecking unnamedEnterpriseOptions
       = Some (ErrorString ''must specify a database name'')"
    by (simp add: validateParseOptions_def validateRequiredOptions_def nameChecking_def
          permissive_def baseOptions_def unnamedEnterpriseOptions_def asyncOptions_def)
  have 3: "\<not> sublist ''only supported in Eon mode'' ''must specify a database name''"
    by code_simp
  from 1 2 3 show ?thesis by simp
qed

theorem validateParseOptions_order_and_eon_witness:
  "\<not> IsEon enterpriseOptions
   \<and> validateParseOptions permissive enterpriseOptions
       = Some (ErrorString ''replication is only supported in Eon mode'')
   \<and> VReplicateDatabase permissive enterpriseOptions
       = Returns (0, Some (ErrorString ''replication is only supported in Eon mode''))
   \<and> VReplicateDatabase engineFails enterpriseOptions
       = VReplicateDatabase permissive enterpriseOptions"
proof -
  have n: "\<not> IsEon enterpriseOptions"
    by (simp add: enterpriseOptions_def asyncOptions_def)
  have r: "validateRequiredOptions permissive enterpriseOptions = None"
    by (simp add: validateRequiredOptions_def permissive_def)
  have b: "validateBaseOptions engineFails = validateBaseOptions permissive"
    by (simp add: engineFails_def)
  note T = validateParseOptions_order_and_eon [of permissive enterpriseOptions engineFails]
  from T [THEN conjunct2, THEN conjunct1] n r
  have 1: "validateParseOptions permissive enterpriseOptions
       = Some (ErrorString ''replication is only supported in Eon mode'')"
    and 2: "VReplicateDatabase permissive enterpriseOptions
       = Returns (0, Some (ErrorString ''replication is only supported in Eon mode''))"
    by auto
  from T [THEN conjunct2, THEN conjunct2] n b
  have 3: "VReplicateDatabase engineFails enterpriseOptions
       = VReplicateDatabase permissive enterpriseOptions"
    by simp
  from n 1 2 3 show ?thesis by simp
qed

end
